theory Spec2Isabelle
  imports Main
begin

section \<open>SQL values and three-valued logic\<close>

text \<open>
  The migrations are PostgreSQL. A nullable column is an \<open>option\<close>, with \<open>None\<close> for
  NULL; a boolean expression has three values, and a row passes a WHERE clause, a USING
  expression or a WITH CHECK expression only when the expression is TRUE (\<open>qual\<close>).
\<close>

type_synonym uuid = string
type_synonym sql_text = string
type_synonym timestamp = nat
type_synonym sql_bool = "bool option"

definition sql_eq :: "'a option \<Rightarrow> 'a option \<Rightarrow> sql_bool" where
  "sql_eq a b = (case a of None \<Rightarrow> None | Some x \<Rightarrow> (case b of None \<Rightarrow> None | Some y \<Rightarrow> Some (x = y)))"

fun sql_and :: "sql_bool \<Rightarrow> sql_bool \<Rightarrow> sql_bool" where
  "sql_and (Some False) b = Some False"
| "sql_and a (Some False) = Some False"
| "sql_and (Some True) (Some True) = Some True"
| "sql_and a b = None"

fun sql_or :: "sql_bool \<Rightarrow> sql_bool \<Rightarrow> sql_bool" where
  "sql_or (Some True) b = Some True"
| "sql_or a (Some True) = Some True"
| "sql_or (Some False) (Some False) = Some False"
| "sql_or a b = None"

definition sql_not :: "sql_bool \<Rightarrow> sql_bool" where
  "sql_not a = (case a of None \<Rightarrow> None | Some b \<Rightarrow> Some (\<not> b))"

definition sql_is_null :: "'a option \<Rightarrow> sql_bool" where
  "sql_is_null a = Some (a = None)"

definition sql_exists :: "'a list \<Rightarrow> sql_bool" where
  "sql_exists rows = Some (rows \<noteq> [])"

definition sql_in :: "'a option \<Rightarrow> 'a list \<Rightarrow> sql_bool" where
  "sql_in a vs = foldr (\<lambda>v acc. sql_or (sql_eq a (Some v)) acc) vs (Some False)"

definition qual :: "sql_bool \<Rightarrow> bool" where
  "qual b = (b = Some True)"

section \<open>Errors\<close>

text \<open>
  A statement that fails is rolled back: an operation returns \<open>Inl\<close> of the error and the
  database keeps the state it had (\<open>state_after\<close>), or \<open>Inr\<close> of the new state.
\<close>

datatype error =
    RaiseException sql_text
  | RlsViolation
  | CheckViolation
  | NotNullViolation
  | UniqueViolation
  | CardinalityViolation
  | MultipleRows

section \<open>Tables\<close>

text \<open>
  The columns are those of the generated \<open>Database\<close> type (Row) in
  \<open>src/pages/AdminDashboard.tsx\<close>: \<open>string | null\<close> is a nullable column, \<open>string\<close> a
  NOT NULL one. Field names carry the table's name (or the alias the migrations use for
  it: \<open>ca\<close>, \<open>se\<close>), since \<open>id\<close> is a constant of HOL. A table is the list of its rows.
\<close>

record user_row =
  users_id :: uuid
  users_email :: sql_text
  users_name :: "sql_text option"
  users_role :: sql_text
  users_programme :: "sql_text option"
  users_photo_url :: "sql_text option"
  users_created_at :: "timestamp option"

record class_row =
  classes_id :: uuid
  classes_subject :: sql_text
  classes_grade :: sql_text
  classes_class_label :: "sql_text option"
  classes_description :: "sql_text option"
  classes_created_at :: "timestamp option"

record assignment_row =
  ca_id :: uuid
  ca_user_id :: "uuid option"
  ca_class_id :: "uuid option"

record syllabus_row =
  se_id :: uuid
  se_class_id :: "uuid option"
  se_volunteer_id :: "uuid option"
  se_date_taught :: sql_text
  se_duration_min :: "int option"
  se_topics :: "sql_text list option"
  se_test_given :: "bool option"
  se_test_info :: "sql_text option"
  se_notes :: "sql_text option"
  se_attachments :: "sql_text list option"
  se_approved :: "bool option"
  se_created_at :: "timestamp option"
  se_updated_at :: "timestamp option"

record announcement_row =
  ann_id :: uuid
  ann_author_id :: "uuid option"
  ann_class_id :: "uuid option"
  ann_message :: sql_text
  ann_pinned :: "bool option"
  ann_expiry_date :: "timestamp option"
  ann_created_at :: "timestamp option"

record db =
  users :: "user_row list"
  classes :: "class_row list"
  class_assignments :: "assignment_row list"
  syllabus_entries :: "syllabus_row list"
  announcements :: "announcement_row list"

definition state_after :: "db \<Rightarrow> error + db \<Rightarrow> db" where
  "state_after d r = (case r of Inl e \<Rightarrow> d | Inr d' \<Rightarrow> d')"

section \<open>The caller\<close>

text \<open>
  Modelled from the spec: \<open>auth.uid()\<close> and \<open>auth.role()\<close> belong to the hosted
  authentication provider and are not in the sources. The spec (section 6) gives the
  policy model one input from it, an opaque, nullable current caller identity. A caller
  is that nullable identity; a request that carries an identity runs in the database role
  \<open>authenticated\<close>, one without in the role \<open>anon\<close>.
\<close>

type_synonym caller = "uuid option"

definition auth_uid :: "caller \<Rightarrow> uuid option" where
  "auth_uid c = c"

definition auth_role :: "caller \<Rightarrow> sql_text option" where
  "auth_role c = (case c of None \<Rightarrow> Some ''anon'' | Some u \<Rightarrow> Some ''authenticated'')"

text \<open>
  \<open>get_current_user_role\<close>: \<open>SELECT role FROM public.users WHERE id = auth.uid()\<close>, a
  SECURITY DEFINER function, so it reads the table itself, not what the caller's policies
  let through. An SQL function returning a scalar gives the first row of its query, NULL
  when there is none.
\<close>

definition get_current_user_role :: "db \<Rightarrow> caller \<Rightarrow> sql_text option" where
  "get_current_user_role d c =
     (case filter (\<lambda>u. qual (sql_eq (Some (users_id u)) (auth_uid c))) (users d) of
        [] \<Rightarrow> None
      | u # rest \<Rightarrow> Some (users_role u))"

section \<open>Policies on users\<close>

text \<open>
  The policy set is the one in force after the last migration: the migration
  "Comprehensive security fix" drops every policy on the five tables in a loop (those of
  the two earlier "Fix critical security vulnerabilities" migrations among them) and
  creates its own, and the later "Critical Security Fixes" replaces
  \<open>Users update own profile\<close>, a name only the comprehensive migration creates, by
  \<open>Users update own profile except role\<close> and adds the constraint \<open>valid_user_roles\<close>.
  Row security is taken as enabled on the five tables, as the migrations presuppose.
  Every policy is permissive: the policies that apply to a command are joined by OR, and
  a FOR ALL policy applies to every command, its USING expression serving as WITH CHECK.
\<close>

definition users_read_own_profile_or_admins_read_all :: "db \<Rightarrow> caller \<Rightarrow> user_row \<Rightarrow> sql_bool" where
  "users_read_own_profile_or_admins_read_all d c u =
     sql_or (sql_eq (Some (users_id u)) (auth_uid c))
            (sql_eq (get_current_user_role d c) (Some ''admin''))"

definition select_users :: "db \<Rightarrow> caller \<Rightarrow> user_row list" where
  "select_users d c = filter (\<lambda>u. qual (users_read_own_profile_or_admins_read_all d c u)) (users d)"

definition system_inserts_users :: "db \<Rightarrow> caller \<Rightarrow> user_row \<Rightarrow> sql_bool" where
  "system_inserts_users d c u = Some True"

definition admins_delete_users :: "db \<Rightarrow> caller \<Rightarrow> user_row \<Rightarrow> sql_bool" where
  "admins_delete_users d c u = sql_eq (get_current_user_role d c) (Some ''admin'')"

definition users_update_own_profile_except_role_using :: "db \<Rightarrow> caller \<Rightarrow> user_row \<Rightarrow> sql_bool" where
  "users_update_own_profile_except_role_using d c u = sql_eq (Some (users_id u)) (auth_uid c)"

text \<open>
  A scalar subquery gives NULL on no row, the value on one row, and fails on more
  ("more than one row returned by a subquery used as an expression").
\<close>

definition scalar_subquery :: "'a option list \<Rightarrow> error + 'a option" where
  "scalar_subquery rows =
     (case rows of
        [] \<Rightarrow> Inr None
      | v # rest \<Rightarrow> (case rest of [] \<Rightarrow> Inr v | w # ws \<Rightarrow> Inl CardinalityViolation))"

text \<open>
  \<open>(SELECT role FROM public.users WHERE id = auth.uid())\<close> inside the WITH CHECK: the
  subquery runs as the caller, through the SELECT policy of \<open>users\<close>, on the state the
  statement started from.
\<close>

definition stored_role :: "db \<Rightarrow> caller \<Rightarrow> error + sql_text option" where
  "stored_role d c =
     scalar_subquery (map (\<lambda>u. Some (users_role u))
       (filter (\<lambda>u. qual (sql_eq (Some (users_id u)) (auth_uid c))) (select_users d c)))"

definition users_update_own_profile_except_role_check :: "db \<Rightarrow> caller \<Rightarrow> user_row \<Rightarrow> error + sql_bool" where
  "users_update_own_profile_except_role_check d c u =
     (case stored_role d c of
        Inl e \<Rightarrow> Inl e
      | Inr stored \<Rightarrow>
          Inr (sql_and (sql_eq (Some (users_id u)) (auth_uid c))
                       (sql_or (sql_eq (Some (users_role u)) stored)
                               (sql_eq (get_current_user_role d c) (Some ''admin'')))))"

text \<open>
  \<open>CONSTRAINT valid_user_roles CHECK (role IN ('admin', 'volunteer', 'viewer'))\<close>. A CHECK
  constraint rejects a row only when its expression is FALSE.
\<close>

definition valid_user_roles :: "user_row \<Rightarrow> bool" where
  "valid_user_roles u = (sql_in (Some (users_role u)) [''admin'', ''volunteer'', ''viewer''] \<noteq> Some False)"

section \<open>Statements on users\<close>

text \<open>
  Rows are processed in order and the first failure aborts the statement.
\<close>

fun each_row :: "('r \<Rightarrow> error + 'r) \<Rightarrow> 'r list \<Rightarrow> error + 'r list" where
  "each_row f [] = Inr []"
| "each_row f (r # rs) =
     (case f r of
        Inl e \<Rightarrow> Inl e
      | Inr r' \<Rightarrow> (case each_row f rs of Inl e \<Rightarrow> Inl e | Inr rs' \<Rightarrow> Inr (r' # rs')))"

text \<open>
  \<open>UPDATE users SET ... WHERE ...\<close> as the caller. \<open>setf\<close> is the SET clause (any new
  values for any columns), \<open>wher\<close> the WHERE clause. A row is updated when it passes the
  WHERE clause, the SELECT policy (the statement reads the row) and the USING expression
  of the UPDATE policy; rows that do not are skipped silently. The new row must pass the
  WITH CHECK expression and the SELECT policy, or the statement fails; then the table's
  CHECK constraint is checked. USING and WITH CHECK both ask for the caller's id, so an
  updated row keeps its id and the unique index on \<open>id\<close> needs no check here.
\<close>

definition users_update_target :: "db \<Rightarrow> caller \<Rightarrow> (user_row \<Rightarrow> bool) \<Rightarrow> user_row \<Rightarrow> bool" where
  "users_update_target d c wher u =
     (wher u \<and> qual (users_read_own_profile_or_admins_read_all d c u)
             \<and> qual (users_update_own_profile_except_role_using d c u))"

definition users_new_row :: "db \<Rightarrow> caller \<Rightarrow> user_row \<Rightarrow> error + user_row" where
  "users_new_row d c n =
     (case users_update_own_profile_except_role_check d c n of
        Inl e \<Rightarrow> Inl e
      | Inr b \<Rightarrow>
          if \<not> qual b \<or> \<not> qual (users_read_own_profile_or_admins_read_all d c n) then Inl RlsViolation
          else if \<not> valid_user_roles n then Inl CheckViolation
          else Inr n)"

definition update_users :: "caller \<Rightarrow> (user_row \<Rightarrow> user_row) \<Rightarrow> (user_row \<Rightarrow> bool) \<Rightarrow> db \<Rightarrow> error + db" where
  "update_users c setf wher d =
     (case each_row (\<lambda>u. if users_update_target d c wher u then users_new_row d c (setf u) else Inr u) (users d) of
        Inl e \<Rightarrow> Inl e
      | Inr rows \<Rightarrow> Inr (d\<lparr>users := rows\<rparr>))"

text \<open>
  \<open>INSERT INTO users\<close> with the rights of the table's owner (no row security): the CHECK
  constraint, then the unique index on \<open>id\<close> that \<open>ON CONFLICT (id)\<close> names.
\<close>

datatype on_conflict = NoConflictClause | DoNothing

definition insert_users_row :: "on_conflict \<Rightarrow> user_row \<Rightarrow> db \<Rightarrow> error + db" where
  "insert_users_row oc r d =
     (if \<not> valid_user_roles r then Inl CheckViolation
      else if filter (\<lambda>u. qual (sql_eq (Some (users_id u)) (Some (users_id r)))) (users d) \<noteq> [] then
        (case oc of NoConflictClause \<Rightarrow> Inl UniqueViolation | DoNothing \<Rightarrow> Inr d)
      else Inr (d\<lparr>users := users d @ [r]\<rparr>))"

text \<open>
  \<open>INSERT INTO users\<close> as the caller: the WITH CHECK expression of \<open>System inserts users\<close>
  on the new row, then the insertion.
\<close>

definition insert_users :: "caller \<Rightarrow> user_row \<Rightarrow> db \<Rightarrow> error + db" where
  "insert_users c r d =
     (if \<not> qual (system_inserts_users d c r) then Inl RlsViolation
      else insert_users_row NoConflictClause r d)"

section \<open>Policies on class_assignments\<close>

definition users_see_own_assignments :: "db \<Rightarrow> caller \<Rightarrow> assignment_row \<Rightarrow> sql_bool" where
  "users_see_own_assignments d c ca =
     sql_or (sql_eq (ca_user_id ca) (auth_uid c))
            (sql_eq (get_current_user_role d c) (Some ''admin''))"

definition admins_manage_assignments :: "db \<Rightarrow> caller \<Rightarrow> assignment_row \<Rightarrow> sql_bool" where
  "admins_manage_assignments d c ca = sql_eq (get_current_user_role d c) (Some ''admin'')"

definition class_assignments_select_policy :: "db \<Rightarrow> caller \<Rightarrow> assignment_row \<Rightarrow> sql_bool" where
  "class_assignments_select_policy d c ca =
     sql_or (users_see_own_assignments d c ca) (admins_manage_assignments d c ca)"

definition select_class_assignments :: "db \<Rightarrow> caller \<Rightarrow> assignment_row list" where
  "select_class_assignments d c = filter (\<lambda>ca. qual (class_assignments_select_policy d c ca)) (class_assignments d)"

text \<open>
  \<open>EXISTS (SELECT 1 FROM class_assignments ca WHERE ca.class_id = X AND ca.user_id = auth.uid())\<close>,
  the subquery of the policies below, with \<open>X\<close> the class of the row under test. It runs
  as the caller, through the SELECT policies of \<open>class_assignments\<close>.
\<close>

definition exists_assignment :: "db \<Rightarrow> caller \<Rightarrow> uuid option \<Rightarrow> sql_bool" where
  "exists_assignment d c x =
     sql_exists (filter (\<lambda>ca. qual (sql_and (sql_eq (ca_class_id ca) x) (sql_eq (ca_user_id ca) (auth_uid c))))
                        (select_class_assignments d c))"

section \<open>Policies on classes\<close>

definition users_view_assigned_classes :: "db \<Rightarrow> caller \<Rightarrow> class_row \<Rightarrow> sql_bool" where
  "users_view_assigned_classes d c k =
     sql_and (sql_eq (auth_role c) (Some ''authenticated''))
             (sql_or (sql_eq (get_current_user_role d c) (Some ''admin''))
                     (exists_assignment d c (Some (classes_id k))))"

definition admins_manage_classes :: "db \<Rightarrow> caller \<Rightarrow> class_row \<Rightarrow> sql_bool" where
  "admins_manage_classes d c k = sql_eq (get_current_user_role d c) (Some ''admin'')"

definition classes_select_policy :: "db \<Rightarrow> caller \<Rightarrow> class_row \<Rightarrow> sql_bool" where
  "classes_select_policy d c k =
     sql_or (users_view_assigned_classes d c k) (admins_manage_classes d c k)"

definition select_classes :: "db \<Rightarrow> caller \<Rightarrow> class_row list" where
  "select_classes d c = filter (\<lambda>k. qual (classes_select_policy d c k)) (classes d)"

section \<open>Policies on syllabus_entries\<close>

definition users_view_assigned_class_syllabus :: "db \<Rightarrow> caller \<Rightarrow> syllabus_row \<Rightarrow> sql_bool" where
  "users_view_assigned_class_syllabus d c e =
     sql_and (sql_eq (auth_role c) (Some ''authenticated''))
             (sql_or (sql_eq (get_current_user_role d c) (Some ''admin''))
                     (exists_assignment d c (se_class_id e)))"

definition volunteers_manage_own_syllabus :: "db \<Rightarrow> caller \<Rightarrow> syllabus_row \<Rightarrow> sql_bool" where
  "volunteers_manage_own_syllabus d c e =
     sql_and (sql_and (sql_eq (auth_role c) (Some ''authenticated''))
                      (sql_eq (se_volunteer_id e) (auth_uid c)))
             (exists_assignment d c (se_class_id e))"

definition admins_manage_all_syllabus :: "db \<Rightarrow> caller \<Rightarrow> syllabus_row \<Rightarrow> sql_bool" where
  "admins_manage_all_syllabus d c e = sql_eq (get_current_user_role d c) (Some ''admin'')"

definition syllabus_entries_select_policy :: "db \<Rightarrow> caller \<Rightarrow> syllabus_row \<Rightarrow> sql_bool" where
  "syllabus_entries_select_policy d c e =
     sql_or (sql_or (users_view_assigned_class_syllabus d c e) (volunteers_manage_own_syllabus d c e))
            (admins_manage_all_syllabus d c e)"

text \<open>
  INSERT, UPDATE and DELETE on \<open>syllabus_entries\<close> have the two FOR ALL policies only.
  Neither has a WITH CHECK clause, so the USING expression is the check of a new row too.
\<close>

definition syllabus_entries_write_policy :: "db \<Rightarrow> caller \<Rightarrow> syllabus_row \<Rightarrow> sql_bool" where
  "syllabus_entries_write_policy d c e =
     sql_or (volunteers_manage_own_syllabus d c e) (admins_manage_all_syllabus d c e)"

definition select_syllabus_entries :: "db \<Rightarrow> caller \<Rightarrow> syllabus_row list" where
  "select_syllabus_entries d c = filter (\<lambda>e. qual (syllabus_entries_select_policy d c e)) (syllabus_entries d)"

text \<open>
  \<open>INSERT INTO syllabus_entries\<close> as the caller. With \<open>returning\<close> (the statement reads
  the new row back) the new row must pass the SELECT policies as well. Keys and foreign
  keys are declared by CREATE TABLE statements that are not among the sources; the
  statement is modelled up to row security.
\<close>

definition insert_syllabus_entries :: "caller \<Rightarrow> bool \<Rightarrow> syllabus_row \<Rightarrow> db \<Rightarrow> error + db" where
  "insert_syllabus_entries c returning r d =
     (if \<not> qual (syllabus_entries_write_policy d c r) then Inl RlsViolation
      else if returning \<and> \<not> qual (syllabus_entries_select_policy d c r) then Inl RlsViolation
      else Inr (d\<lparr>syllabus_entries := syllabus_entries d @ [r]\<rparr>))"

text \<open>
  \<open>UPDATE syllabus_entries SET ... WHERE ...\<close> as the caller, read like \<open>update_users\<close>.
\<close>

definition syllabus_entries_update_target :: "db \<Rightarrow> caller \<Rightarrow> (syllabus_row \<Rightarrow> bool) \<Rightarrow> syllabus_row \<Rightarrow> bool" where
  "syllabus_entries_update_target d c wher e =
     (wher e \<and> qual (syllabus_entries_select_policy d c e) \<and> qual (syllabus_entries_write_policy d c e))"

definition syllabus_entries_new_row :: "db \<Rightarrow> caller \<Rightarrow> syllabus_row \<Rightarrow> error + syllabus_row" where
  "syllabus_entries_new_row d c n =
     (if \<not> qual (syllabus_entries_write_policy d c n) \<or> \<not> qual (syllabus_entries_select_policy d c n)
      then Inl RlsViolation else Inr n)"

definition update_syllabus_entries :: "caller \<Rightarrow> (syllabus_row \<Rightarrow> syllabus_row) \<Rightarrow> (syllabus_row \<Rightarrow> bool) \<Rightarrow> db \<Rightarrow> error + db" where
  "update_syllabus_entries c setf wher d =
     (case each_row (\<lambda>e. if syllabus_entries_update_target d c wher e
                         then syllabus_entries_new_row d c (setf e) else Inr e) (syllabus_entries d) of
        Inl e \<Rightarrow> Inl e
      | Inr rows \<Rightarrow> Inr (d\<lparr>syllabus_entries := rows\<rparr>))"

section \<open>Policies on announcements\<close>

definition users_read_relevant_announcements :: "db \<Rightarrow> caller \<Rightarrow> announcement_row \<Rightarrow> sql_bool" where
  "users_read_relevant_announcements d c a =
     sql_and (sql_eq (auth_role c) (Some ''authenticated''))
             (sql_or (sql_or (sql_is_null (ann_class_id a))
                             (sql_eq (get_current_user_role d c) (Some ''admin'')))
                     (exists_assignment d c (ann_class_id a)))"

definition admins_manage_all_announcements :: "db \<Rightarrow> caller \<Rightarrow> announcement_row \<Rightarrow> sql_bool" where
  "admins_manage_all_announcements d c a = sql_eq (get_current_user_role d c) (Some ''admin'')"

definition announcements_select_policy :: "db \<Rightarrow> caller \<Rightarrow> announcement_row \<Rightarrow> sql_bool" where
  "announcements_select_policy d c a =
     sql_or (users_read_relevant_announcements d c a) (admins_manage_all_announcements d c a)"

text \<open>
  The words of the spec, "a ClassAssignment(C, K) exists": some row of the table relates
  user \<open>u\<close> to class \<open>k\<close>.
\<close>

definition has_assignment :: "db \<Rightarrow> uuid \<Rightarrow> uuid \<Rightarrow> bool" where
  "has_assignment d u k =
     list_ex (\<lambda>ca. ca_user_id ca = Some u \<and> ca_class_id ca = Some k) (class_assignments d)"

section \<open>Views\<close>

text \<open>
  The last migration creates both views \<open>WITH (security_invoker = true)\<close>: the tables
  under a view are read with the rights, and so through the policies, of the caller who
  queries the view. Without the option they are read with the rights of the view's
  owner, who owns the tables and is not subject to their policies. \<open>base_rows\<close> takes the
  option, the rows the caller may select and all rows of the table.
\<close>

definition base_rows :: "bool \<Rightarrow> 'r list \<Rightarrow> 'r list \<Rightarrow> 'r list" where
  "base_rows security_invoker visible everything = (if security_invoker then visible else everything)"

record pending_volunteers_row =
  pv_id :: uuid
  pv_name :: "sql_text option"
  pv_email :: sql_text
  pv_programme :: "sql_text option"
  pv_created_at :: "timestamp option"

definition pending_volunteers_columns :: "user_row \<Rightarrow> pending_volunteers_row" where
  "pending_volunteers_columns u =
     \<lparr>pv_id = users_id u, pv_name = users_name u, pv_email = users_email u,
      pv_programme = users_programme u, pv_created_at = users_created_at u\<rparr>"

definition pending_volunteers_view :: "bool \<Rightarrow> db \<Rightarrow> caller \<Rightarrow> pending_volunteers_row list" where
  "pending_volunteers_view security_invoker d c =
     map pending_volunteers_columns
       (filter (\<lambda>u. qual (sql_eq (Some (users_role u)) (Some ''viewer'')))
               (base_rows security_invoker (select_users d c) (users d)))"

definition pending_volunteers :: "db \<Rightarrow> caller \<Rightarrow> pending_volunteers_row list" where
  "pending_volunteers d c = pending_volunteers_view True d c"

record volunteer_dashboard_row =
  vd_syllabus_entry_id :: uuid
  vd_class_id :: "uuid option"
  vd_volunteer_id :: "uuid option"
  vd_date_taught :: sql_text
  vd_duration_min :: "int option"
  vd_topics :: "sql_text list option"
  vd_test_given :: "bool option"
  vd_test_info :: "sql_text option"
  vd_notes :: "sql_text option"
  vd_attachments :: "sql_text list option"
  vd_entry_created_at :: "timestamp option"
  vd_entry_updated_at :: "timestamp option"
  vd_volunteer_name :: "sql_text option"
  vd_volunteer_email :: sql_text
  vd_programme :: "sql_text option"
  vd_photo_url :: "sql_text option"
  vd_subject :: sql_text
  vd_grade :: sql_text
  vd_class_label :: "sql_text option"
  vd_description :: "sql_text option"

definition volunteer_dashboard_columns :: "syllabus_row \<Rightarrow> user_row \<Rightarrow> class_row \<Rightarrow> volunteer_dashboard_row" where
  "volunteer_dashboard_columns se u k =
     \<lparr>vd_syllabus_entry_id = se_id se, vd_class_id = se_class_id se,
      vd_volunteer_id = se_volunteer_id se, vd_date_taught = se_date_taught se,
      vd_duration_min = se_duration_min se, vd_topics = se_topics se,
      vd_test_given = se_test_given se, vd_test_info = se_test_info se,
      vd_notes = se_notes se, vd_attachments = se_attachments se,
      vd_entry_created_at = se_created_at se, vd_entry_updated_at = se_updated_at se,
      vd_volunteer_name = users_name u, vd_volunteer_email = users_email u,
      vd_programme = users_programme u, vd_photo_url = users_photo_url u,
      vd_subject = classes_subject k, vd_grade = classes_grade k,
      vd_class_label = classes_class_label k, vd_description = classes_description k\<rparr>"

definition volunteer_dashboard_view :: "bool \<Rightarrow> db \<Rightarrow> caller \<Rightarrow> volunteer_dashboard_row list" where
  "volunteer_dashboard_view security_invoker d c =
     [volunteer_dashboard_columns se u k.
        se \<leftarrow> base_rows security_invoker (select_syllabus_entries d c) (syllabus_entries d),
        u \<leftarrow> base_rows security_invoker (select_users d c) (users d),
        qual (sql_eq (se_volunteer_id se) (Some (users_id u))),
        k \<leftarrow> base_rows security_invoker (select_classes d c) (classes d),
        qual (sql_eq (se_class_id se) (Some (classes_id k))),
        qual (sql_in (Some (users_role u)) [''volunteer'', ''admin''])]"

definition volunteer_dashboard :: "db \<Rightarrow> caller \<Rightarrow> volunteer_dashboard_row list" where
  "volunteer_dashboard d c = volunteer_dashboard_view True d c"

section \<open>Functions and triggers\<close>

text \<open>
  \<open>promote_user(target_user uuid, new_role text)\<close>, SECURITY DEFINER: its UPDATE runs with
  the rights of the function's owner, past the policies of \<open>users\<close>; the CHECK constraint
  of the table still holds for it. The body does not read \<open>auth.uid()\<close> or the caller's
  role; the caller is an argument here so that statements can range over callers. The
  function is not declared STRICT, so either argument may be NULL: \<open>NULL not in (...)\<close> is
  NULL, and an \<open>if\<close> whose condition is NULL takes no branch. The column \<open>role\<close> is NOT
  NULL (\<open>role: string\<close> in the generated Row type), which is checked on a row before the
  CHECK constraint. \<open>raise exception\<close> prints a NULL argument as \<open><NULL>\<close>.
\<close>

definition promote_user :: "caller \<Rightarrow> uuid option \<Rightarrow> sql_text option \<Rightarrow> db \<Rightarrow> error + db" where
  "promote_user c target_user new_role d =
     (if qual (sql_not (sql_in new_role [''admin'', ''volunteer'', ''viewer'']))
      then Inl (RaiseException (''Invalid role: '' @ (case new_role of None \<Rightarrow> ''<NULL>'' | Some r \<Rightarrow> r)))
      else (case each_row
                   (\<lambda>u. if qual (sql_eq (Some (users_id u)) target_user)
                         then (case new_role of
                                 None \<Rightarrow> Inl NotNullViolation
                               | Some r \<Rightarrow>
                                   if valid_user_roles (u\<lparr>users_role := r\<rparr>)
                                   then Inr (u\<lparr>users_role := r\<rparr>) else Inl CheckViolation)
                         else Inr u)
                   (users d) of
              Inl e \<Rightarrow> Inl e
            | Inr rows \<Rightarrow> Inr (d\<lparr>users := rows\<rparr>)))"

text \<open>
  \<open>handle_new_user\<close>, the trigger on a new identity, in its last version (the migration
  "Fix function search path mutable warnings" replaces the one that always wrote
  \<open>viewer\<close>). \<open>new\<close> is the row of the provider's identity table, of which the trigger
  reads \<open>id\<close>, \<open>email\<close> and the \<open>name\<close> key of \<open>raw_user_meta_data\<close>. The INSERT names four
  columns; the others take their column defaults, which CREATE TABLE statements outside
  the sources declare: \<open>defaults\<close> stands for them.
\<close>

record auth_user =
  au_id :: uuid
  au_email :: sql_text
  au_raw_user_meta_data :: "(sql_text \<times> sql_text) list"

definition handle_new_user :: "user_row \<Rightarrow> auth_user \<Rightarrow> db \<Rightarrow> error + db" where
  "handle_new_user defaults new d =
     insert_users_row DoNothing
       (defaults\<lparr>users_id := au_id new,
                 users_email := au_email new,
                 users_name := map_of (au_raw_user_meta_data new) ''name'',
                 users_role := (if qual (sql_eq (Some (au_email new)) (Some ''sunny@example.com''))
                                then ''admin'' else ''viewer'')\<rparr>)
       d"

section \<open>Assigning a class\<close>

text \<open>
  \<open>handleClassAssignment\<close> of the admin dashboard issues up to three requests, each a
  statement of its own (there is no transaction around them): find the class of the
  chosen grade and subject, create it when there is none, and upsert the assignment.
  An error of a request is caught and reported; what earlier requests wrote stays.
\<close>

datatype outcome = Success | SelectGradeAndSubject | Failed error

definition maybeSingle :: "'r list \<Rightarrow> error + 'r option" where
  "maybeSingle rows =
     (case rows of
        [] \<Rightarrow> Inr None
      | r # rest \<Rightarrow> (case rest of [] \<Rightarrow> Inr (Some r) | r' # rs \<Rightarrow> Inl MultipleRows))"

definition insert_classes :: "caller \<Rightarrow> bool \<Rightarrow> class_row \<Rightarrow> db \<Rightarrow> error + db" where
  "insert_classes c returning r d =
     (if \<not> qual (admins_manage_classes d c r) then Inl RlsViolation
      else if returning \<and> \<not> qual (classes_select_policy d c r) then Inl RlsViolation
      else Inr (d\<lparr>classes := classes d @ [r]\<rparr>))"

text \<open>
  Modelled from the spec: the unique index on \<open>(user_id, class_id)\<close> that
  \<open>onConflict: 'user_id,class_id'\<close> names is declared outside the sources; the spec has a
  ClassAssignment "unique per (user, class) pair". Two rows conflict when both columns
  are equal (a NULL equals nothing). The upsert is
  \<open>INSERT ... ON CONFLICT (user_id, class_id) DO UPDATE SET user_id = EXCLUDED.user_id,
  class_id = EXCLUDED.class_id\<close>: the proposed row must pass the policies for INSERT; on a
  conflict the existing row must pass USING, and the row as updated WITH CHECK, of the
  policies for UPDATE; the SELECT policies apply to each of them.
\<close>

definition class_assignments_conflict :: "assignment_row \<Rightarrow> assignment_row \<Rightarrow> bool" where
  "class_assignments_conflict r ca =
     qual (sql_and (sql_eq (ca_user_id ca) (ca_user_id r)) (sql_eq (ca_class_id ca) (ca_class_id r)))"

definition unique_user_class :: "db \<Rightarrow> bool" where
  "unique_user_class d =
     distinct (map (\<lambda>ca. (ca_user_id ca, ca_class_id ca))
                   (filter (\<lambda>ca. ca_user_id ca \<noteq> None \<and> ca_class_id ca \<noteq> None) (class_assignments d)))"

definition class_assignments_passes :: "db \<Rightarrow> caller \<Rightarrow> assignment_row \<Rightarrow> bool" where
  "class_assignments_passes d c ca =
     (qual (admins_manage_assignments d c ca) \<and> qual (class_assignments_select_policy d c ca))"

definition upsert_class_assignments :: "caller \<Rightarrow> assignment_row \<Rightarrow> db \<Rightarrow> error + db" where
  "upsert_class_assignments c r d =
     (if \<not> class_assignments_passes d c r then Inl RlsViolation
      else if filter (class_assignments_conflict r) (class_assignments d) = []
      then Inr (d\<lparr>class_assignments := class_assignments d @ [r]\<rparr>)
      else (case each_row
                   (\<lambda>ca. if class_assignments_conflict r ca
                          then (if \<not> class_assignments_passes d c ca then Inl RlsViolation
                                else if \<not> class_assignments_passes d c
                                            (ca\<lparr>ca_user_id := ca_user_id r, ca_class_id := ca_class_id r\<rparr>)
                                then Inl RlsViolation
                                else Inr (ca\<lparr>ca_user_id := ca_user_id r, ca_class_id := ca_class_id r\<rparr>))
                          else Inr ca)
                   (class_assignments d) of
              Inl e \<Rightarrow> Inl e
            | Inr rows \<Rightarrow> Inr (d\<lparr>class_assignments := rows\<rparr>)))"

text \<open>
  \<open>assignment\<close> is the form entry \<open>classAssignments[userId]\<close> (grade, subject), absent
  when nothing was chosen. \<open>find_or_create_class\<close> is the first part of the handler, up
  to the value of \<open>classId\<close>. \<open>class_defaults\<close> and \<open>assignment_defaults\<close> stand for the column
  defaults of the two tables, the generated \<open>id\<close> among them.
\<close>

definition find_or_create_class :: "caller \<Rightarrow> sql_text \<Rightarrow> sql_text \<Rightarrow> class_row \<Rightarrow> db \<Rightarrow> error + (uuid \<times> db)" where
  "find_or_create_class c grade subject class_defaults d =
     (case maybeSingle (filter (\<lambda>k. classes_grade k = grade \<and> classes_subject k = subject)
                               (select_classes d c)) of
        Inl e \<Rightarrow> Inl e
      | Inr existingClass \<Rightarrow>
          (case existingClass of
             Some k \<Rightarrow> Inr (classes_id k, d)
           | None \<Rightarrow>
               (case insert_classes c True
                       (class_defaults\<lparr>classes_grade := grade, classes_subject := subject,
                                       classes_class_label := Some (grade @ ''-'' @ subject)\<rparr>) d of
                  Inl e \<Rightarrow> Inl e
                | Inr d' \<Rightarrow> Inr (classes_id class_defaults, d'))))"

definition handleClassAssignment ::
  "caller \<Rightarrow> uuid \<Rightarrow> (sql_text \<times> sql_text) option \<Rightarrow> class_row \<Rightarrow> assignment_row \<Rightarrow> db \<Rightarrow> outcome \<times> db" where
  "handleClassAssignment c userId assignment class_defaults assignment_defaults d =
     (case assignment of
        None \<Rightarrow> (SelectGradeAndSubject, d)
      | Some (grade, subject) \<Rightarrow>
          if grade = [] \<or> subject = [] then (SelectGradeAndSubject, d)
          else (case find_or_create_class c grade subject class_defaults d of
                  Inl e \<Rightarrow> (Failed e, d)
                | Inr (classId, d1) \<Rightarrow>
                    (case upsert_class_assignments c
                            (assignment_defaults\<lparr>ca_user_id := Some userId, ca_class_id := Some classId\<rparr>) d1 of
                       Inl e \<Rightarrow> (Failed e, d1)
                     | Inr d2 \<Rightarrow> (Success, d2))))"

text \<open>
  The words of the spec, the "owning volunteer" of an entry, taken with the assignment
  that \<open>Volunteers manage own syllabus\<close> asks for: the entry names \<open>v\<close> as its volunteer
  and \<open>v\<close> is assigned to the entry's class.
\<close>

definition owner_assigned :: "db \<Rightarrow> uuid \<Rightarrow> syllabus_row \<Rightarrow> bool" where
  "owner_assigned d v e =
     (se_volunteer_id e = Some v \<and> (case se_class_id e of None \<Rightarrow> False | Some k \<Rightarrow> has_assignment d v k))"

text \<open>
  Two clauses of a request \<open>update({approved: b}).eq('id', i)\<close> on \<open>syllabus_entries\<close>:
  the SET clause and the WHERE clause.
\<close>

definition set_approved :: "bool option \<Rightarrow> syllabus_row \<Rightarrow> syllabus_row" where
  "set_approved b e = e\<lparr>se_approved := b\<rparr>"

definition se_id_eq :: "uuid \<Rightarrow> syllabus_row \<Rightarrow> bool" where
  "se_id_eq i e = (se_id e = i)"

section \<open>An example state\<close>

text \<open>
  An admin \<open>a1\<close>, two volunteers \<open>v1\<close> (assigned to class \<open>k1\<close>) and \<open>w1\<close> (assigned to
  \<open>k2\<close>), and a viewer \<open>p1\<close> without assignment; one syllabus entry of \<open>v1\<close> in \<open>k1\<close>, not
  approved; one announcement for \<open>k1\<close> and one for everybody.
\<close>

definition example_user :: "uuid \<Rightarrow> sql_text \<Rightarrow> sql_text \<Rightarrow> user_row" where
  "example_user i e r =
     \<lparr>users_id = i, users_email = e, users_name = None, users_role = r,
      users_programme = None, users_photo_url = None, users_created_at = None\<rparr>"

definition example_class :: "uuid \<Rightarrow> sql_text \<Rightarrow> sql_text \<Rightarrow> class_row" where
  "example_class i g s =
     \<lparr>classes_id = i, classes_subject = s, classes_grade = g, classes_class_label = None,
      classes_description = None, classes_created_at = None\<rparr>"

definition example_entry :: "uuid \<Rightarrow> uuid \<Rightarrow> uuid \<Rightarrow> syllabus_row" where
  "example_entry i k v =
     \<lparr>se_id = i, se_class_id = Some k, se_volunteer_id = Some v, se_date_taught = ''2025-09-16'',
      se_duration_min = Some 45, se_topics = Some [''fractions''], se_test_given = Some False,
      se_test_info = None, se_notes = None, se_attachments = None, se_approved = Some False,
      se_created_at = None, se_updated_at = None\<rparr>"

definition example_announcement :: "uuid \<Rightarrow> uuid option \<Rightarrow> uuid \<Rightarrow> announcement_row" where
  "example_announcement i k a =
     \<lparr>ann_id = i, ann_author_id = Some a, ann_class_id = k, ann_message = ''hello'',
      ann_pinned = None, ann_expiry_date = None, ann_created_at = None\<rparr>"

definition example_db :: db where
  "example_db =
     \<lparr>users = [example_user ''a1'' ''a1@example.org'' ''admin'',
               example_user ''v1'' ''v1@example.org'' ''volunteer'',
               example_user ''w1'' ''w1@example.org'' ''volunteer'',
               example_user ''p1'' ''p1@example.org'' ''viewer''],
      classes = [example_class ''k1'' ''6'' ''Maths'', example_class ''k2'' ''7'' ''Science''],
      class_assignments = [\<lparr>ca_id = ''x1'', ca_user_id = Some ''v1'', ca_class_id = Some ''k1''\<rparr>,
                           \<lparr>ca_id = ''x2'', ca_user_id = Some ''w1'', ca_class_id = Some ''k2''\<rparr>],
      syllabus_entries = [example_entry ''e1'' ''k1'' ''v1''],
      announcements = [example_announcement ''n1'' (Some ''k1'') ''v1'',
                       example_announcement ''n2'' None ''a1'']\<rparr>"

section \<open>Lemmas on the logic\<close>

lemma qual_sql_and: "qual (sql_and a b) = (qual a \<and> qual b)"
  by (cases "(a, b)" rule: sql_and.cases) (simp_all add: qual_def)

lemma qual_sql_or: "qual (sql_or a b) = (qual a \<or> qual b)"
  by (cases "(a, b)" rule: sql_or.cases) (simp_all add: qual_def)

lemma qual_sql_eq: "qual (sql_eq a b) = (\<exists>x. a = Some x \<and> b = Some x)"
  by (auto simp: qual_def sql_eq_def split: option.splits)

lemma qual_sql_exists: "qual (sql_exists rows) = (rows \<noteq> [])"
  by (simp add: qual_def sql_exists_def)

lemma each_row_map:
  "(\<And>r. r \<in> set rs \<Longrightarrow> f r = Inr (g r)) \<Longrightarrow> each_row f rs = Inr (map g rs)"
  by (induction rs) simp_all

lemma each_row_pres:
  assumes "each_row f rs = Inr rs'"
    and "\<And>r r'. r \<in> set rs \<Longrightarrow> f r = Inr r' \<Longrightarrow> h r' = h r"
  shows "map h rs' = map h rs"
  using assms
proof (induction rs arbitrary: rs')
  case Nil
  then show ?case by simp
next
  case (Cons r rs)
  then show ?case
    by (auto split: sum.splits)
qed

lemma scalar_subquery_Inr:
  "scalar_subquery rows = Inr v \<Longrightarrow> x \<in> set rows \<Longrightarrow> v = x"
  by (auto simp: scalar_subquery_def split: list.splits)

lemma stored_role_own:
  assumes "stored_role d c = Inr stored" and "u \<in> set (users d)"
    and "qual (sql_eq (Some (users_id u)) (auth_uid c))"
  shows "stored = Some (users_role u)"
proof -
  have "qual (users_read_own_profile_or_admins_read_all d c u)"
    using assms(3) by (simp add: users_read_own_profile_or_admins_read_all_def qual_sql_or)
  then have "Some (users_role u) \<in> set (map (\<lambda>u. Some (users_role u))
       (filter (\<lambda>u. qual (sql_eq (Some (users_id u)) (auth_uid c))) (select_users d c)))"
    using assms(2,3) by (auto simp: select_users_def)
  with assms(1) show ?thesis
    unfolding stored_role_def by (rule scalar_subquery_Inr)
qed

lemma users_new_row_keeps_role:
  assumes na: "get_current_user_role d c \<noteq> Some ''admin''"
    and tgt: "users_update_target d c wher u" and mem: "u \<in> set (users d)"
    and new: "users_new_row d c n = Inr n'"
  shows "users_role n' = users_role u"
proof -
  from new obtain b where chk: "users_update_own_profile_except_role_check d c n = Inr b"
    and qb: "qual b" and n': "n' = n"
    by (auto simp: users_new_row_def split: sum.splits if_splits)
  from chk obtain stored where st: "stored_role d c = Inr stored"
    and b: "b = sql_and (sql_eq (Some (users_id n)) (auth_uid c))
                       (sql_or (sql_eq (Some (users_role n)) stored)
                               (sql_eq (get_current_user_role d c) (Some ''admin'')))"
    by (auto simp: users_update_own_profile_except_role_check_def split: sum.splits)
  from tgt have own: "qual (sql_eq (Some (users_id u)) (auth_uid c))"
    by (simp add: users_update_target_def users_update_own_profile_except_role_using_def)
  have "stored = Some (users_role u)" using st mem own by (rule stored_role_own)
  moreover from qb b na have "stored = Some (users_role n)"
    by (auto simp: qual_sql_and qual_sql_or qual_sql_eq)
  ultimately show ?thesis using n' by simp
qed

lemma update_users_roles:
  assumes "get_current_user_role d c \<noteq> Some ''admin''" and "update_users c setf wher d = Inr d'"
  shows "map users_role (users d') = map users_role (users d)"
proof -
  from assms(2) obtain rows where
    er: "each_row (\<lambda>u. if users_update_target d c wher u then users_new_row d c (setf u) else Inr u) (users d) = Inr rows"
    and d': "d' = d\<lparr>users := rows\<rparr>"
    by (auto simp: update_users_def split: sum.splits)
  have "map users_role rows = map users_role (users d)"
    using er
  proof (rule each_row_pres)
    fix r r'
    assume "r \<in> set (users d)"
      and "(if users_update_target d c wher r then users_new_row d c (setf r) else Inr r) = Inr r'"
    then show "users_role r' = users_role r"
      using users_new_row_keeps_role [OF assms(1)] by (auto split: if_splits)
  qed
  then show ?thesis using d' by simp
qed

section \<open>Updates of users\<close>

lemma filter_distinct_le1:
  "distinct (map f xs) \<Longrightarrow> length (filter (\<lambda>x. f x = a) xs) \<le> Suc 0"
proof (induction xs)
  case Nil
  then show ?case by simp
next
  case (Cons x xs)
  have "f x = a \<Longrightarrow> filter (\<lambda>x. f x = a) xs = []"
    using Cons.prems by (auto simp: filter_empty_conv image_iff)
  with Cons show ?case by auto
qed

lemma qual_sql_eq_Some: "qual (sql_eq (Some x) (Some y)) = (x = y)"
  by (simp add: qual_def sql_eq_def)

lemma filter_conj_le:
  "length (filter (\<lambda>x. P x \<and> Q x) xs) \<le> length (filter Q xs)"
  by (induction xs) auto

lemma scalar_subquery_short:
  "length rows \<le> Suc 0 \<Longrightarrow> \<exists>v. scalar_subquery rows = Inr v"
  by (auto simp: scalar_subquery_def split: list.splits)

lemma stored_role_distinct:
  assumes "distinct (map users_id (users d))"
  shows "\<exists>v. stored_role d c = Inr v"
proof (cases c)
  case None
  then show ?thesis
    by (simp add: stored_role_def qual_sql_eq auth_uid_def scalar_subquery_def)
next
  case (Some a)
  have "length (filter (\<lambda>u. users_id u = a) (select_users d c)) \<le> length (filter (\<lambda>u. users_id u = a) (users d))"
    unfolding select_users_def filter_filter by (rule filter_conj_le)
  also have "\<dots> \<le> Suc 0" using assms by (rule filter_distinct_le1)
  finally have "length (map (\<lambda>u. Some (users_role u)) (filter (\<lambda>u. users_id u = a) (select_users d c))) \<le> Suc 0"
    by simp
  then show ?thesis
    unfolding stored_role_def using Some
    by (simp add: qual_sql_eq_Some auth_uid_def scalar_subquery_short)
qed

lemma admin_new_row:
  assumes adm: "get_current_user_role d (Some a) = Some ''admin''"
    and dist: "distinct (map users_id (users d))"
    and r: "r \<in> set [''admin'', ''volunteer'', ''viewer'']"
    and own: "users_id n = a" and nr: "users_role n = r"
  shows "users_new_row d (Some a) n = Inr n"
proof -
  from dist obtain v where v: "stored_role d (Some a) = Inr v"
    using stored_role_distinct by blast
  have valid: "valid_user_roles n"
    using r nr by (auto simp: valid_user_roles_def sql_in_def sql_eq_def)
  show ?thesis
    using v adm own valid
    by (simp add: users_new_row_def users_update_own_profile_except_role_check_def
        users_read_own_profile_or_admins_read_all_def qual_sql_and qual_sql_or qual_sql_eq auth_uid_def)
qed

lemma admin_update_role:
  assumes adm: "get_current_user_role d (Some a) = Some ''admin''"
    and dist: "distinct (map users_id (users d))"
    and r: "r \<in> set [''admin'', ''volunteer'', ''viewer'']"
  shows "update_users (Some a) (\<lambda>u. u\<lparr>users_role := r\<rparr>) (\<lambda>u. users_id u = a) d
         = Inr (d\<lparr>users := map (\<lambda>u. if users_id u = a then u\<lparr>users_role := r\<rparr> else u) (users d)\<rparr>)"
proof -
  have "each_row (\<lambda>u. if users_update_target d (Some a) (\<lambda>u. users_id u = a) u
                      then users_new_row d (Some a) (u\<lparr>users_role := r\<rparr>) else Inr u) (users d)
        = Inr (map (\<lambda>u. if users_id u = a then u\<lparr>users_role := r\<rparr> else u) (users d))"
  proof (rule each_row_map)
    fix u
    assume "u \<in> set (users d)"
    show "(if users_update_target d (Some a) (\<lambda>u. users_id u = a) u
           then users_new_row d (Some a) (u\<lparr>users_role := r\<rparr>) else Inr u)
          = Inr (if users_id u = a then u\<lparr>users_role := r\<rparr> else u)"
    proof (cases "users_id u = a")
      case True
      then have "users_update_target d (Some a) (\<lambda>u. users_id u = a) u"
        by (simp add: users_update_target_def users_read_own_profile_or_admins_read_all_def
            users_update_own_profile_except_role_using_def qual_sql_or qual_sql_eq auth_uid_def)
      moreover have "users_new_row d (Some a) (u\<lparr>users_role := r\<rparr>) = Inr (u\<lparr>users_role := r\<rparr>)"
        using adm dist r by (rule admin_new_row) (simp_all add: True)
      ultimately show ?thesis using True by simp
    next
      case False
      then show ?thesis by (simp add: users_update_target_def)
    qed
  qed
  then show ?thesis by (simp add: update_users_def)
qed

section \<open>The role-escalation guard\<close>

lemmas ex_defs = example_db_def example_user_def example_class_def example_entry_def example_announcement_def

lemmas users_defs = update_users_def users_update_target_def users_new_row_def
  users_update_own_profile_except_role_check_def users_update_own_profile_except_role_using_def
  users_read_own_profile_or_admins_read_all_def stored_role_def select_users_def scalar_subquery_def
  get_current_user_role_def valid_user_roles_def sql_in_def sql_eq_def qual_def auth_uid_def state_after_def

text \<open>
  C1, the role-escalation guard. A caller whose role is not admin cannot change the
  \<open>role\<close> column of any row of \<open>users\<close> by an UPDATE, whatever the SET clause assigns to
  the other columns and whatever the WHERE clause selects: the statement fails and is
  rolled back, or it leaves the column as it was. An admin may change the role of the
  row that is the admin's own to any value of the enumeration.
\<close>

theorem role_escalation_guard:
  "(get_current_user_role d c \<noteq> Some ''admin'' \<longrightarrow>
      map users_role (users (state_after d (update_users c setf wher d))) = map users_role (users d))
   \<and> (get_current_user_role d (Some a) = Some ''admin'' \<and> distinct (map users_id (users d))
        \<and> r \<in> set [''admin'', ''volunteer'', ''viewer''] \<longrightarrow>
      update_users (Some a) (\<lambda>u. u\<lparr>users_role := r\<rparr>) (\<lambda>u. users_id u = a) d
        = Inr (d\<lparr>users := map (\<lambda>u. if users_id u = a then u\<lparr>users_role := r\<rparr> else u) (users d)\<rparr>))"
proof (intro conjI impI)
  assume na: "get_current_user_role d c \<noteq> Some ''admin''"
  show "map users_role (users (state_after d (update_users c setf wher d))) = map users_role (users d)"
  proof (cases "update_users c setf wher d")
    case (Inl e)
    then show ?thesis by (simp add: state_after_def)
  next
    case (Inr d')
    with na show ?thesis by (simp add: state_after_def update_users_roles)
  qed
next
  assume "get_current_user_role d (Some a) = Some ''admin'' \<and> distinct (map users_id (users d))
        \<and> r \<in> set [''admin'', ''volunteer'', ''viewer'']"
  then show "update_users (Some a) (\<lambda>u. u\<lparr>users_role := r\<rparr>) (\<lambda>u. users_id u = a) d
        = Inr (d\<lparr>users := map (\<lambda>u. if users_id u = a then u\<lparr>users_role := r\<rparr> else u) (users d)\<rparr>)"
    using admin_update_role by blast
qed

theorem role_escalation_guard_witness:
  "get_current_user_role example_db (Some ''p1'') = Some ''viewer''
   \<and> update_users (Some ''p1'') (\<lambda>u. u\<lparr>users_name := Some ''Pat'', users_role := ''admin''\<rparr>)
        (\<lambda>u. users_id u = ''p1'') example_db = Inl RlsViolation
   \<and> map users_role (users (state_after example_db
        (update_users (Some ''p1'') (\<lambda>u. u\<lparr>users_name := Some ''Pat''\<rparr>) (\<lambda>u. users_id u = ''p1'') example_db)))
      = [''admin'', ''volunteer'', ''volunteer'', ''viewer'']
   \<and> get_current_user_role example_db (Some ''a1'') = Some ''admin''
   \<and> distinct (map users_id (users example_db))
   \<and> map users_role (users (state_after example_db
        (update_users (Some ''a1'') (\<lambda>u. u\<lparr>users_role := ''volunteer''\<rparr>) (\<lambda>u. users_id u = ''a1'') example_db)))
      = [''volunteer'', ''volunteer'', ''volunteer'', ''viewer'']"
  using role_escalation_guard [of example_db "Some ''p1''" "\<lambda>u. u\<lparr>users_name := Some ''Pat''\<rparr>"
      "\<lambda>u. users_id u = ''p1''" "''a1''" "''volunteer''"]
  by (simp add: ex_defs users_defs)

section \<open>Visibility by assignment\<close>

lemma qual_exists_assignment:
  "qual (exists_assignment d (Some c) x) = (\<exists>k. x = Some k \<and> has_assignment d c k)"
proof -
  have vis: "ca_user_id ca = Some c \<Longrightarrow> qual (class_assignments_select_policy d (Some c) ca)" for ca
    by (simp add: class_assignments_select_policy_def users_see_own_assignments_def
        qual_sql_or qual_sql_eq auth_uid_def)
  show ?thesis
    unfolding exists_assignment_def select_class_assignments_def has_assignment_def
      qual_sql_exists filter_filter filter_empty_conv list_ex_iff
    using vis by (auto simp: qual_sql_and qual_sql_eq auth_uid_def)
qed

lemma authenticated_Some: "qual (sql_eq (auth_role (Some c)) (Some ''authenticated''))"
  by (simp add: auth_role_def qual_sql_eq)

lemma qual_sql_eq_uid: "qual (sql_eq x (auth_uid (Some v))) = (x = Some v)"
  by (auto simp: qual_sql_eq auth_uid_def)

lemma not_admin: "r \<noteq> Some ''admin'' \<Longrightarrow> \<not> qual (sql_eq r (Some ''admin''))"
  by (simp add: qual_sql_eq)

text \<open>
  C2. For a caller with an identity whose role is not admin, a row of \<open>classes\<close>, a row
  of \<open>syllabus_entries\<close> of class \<open>K\<close> and a row of \<open>announcements\<close> of class \<open>K\<close> pass the
  SELECT policies of their table if and only if \<open>class_assignments\<close> has a row relating
  the caller to that class.
\<close>

theorem select_scoped_iff_assignment:
  assumes "get_current_user_role d (Some c) \<noteq> Some ''admin''"
  shows "(qual (classes_select_policy d (Some c) k) \<longleftrightarrow> has_assignment d c (classes_id k))
       \<and> (se_class_id e = Some kid \<longrightarrow>
            (qual (syllabus_entries_select_policy d (Some c) e) \<longleftrightarrow> has_assignment d c kid))
       \<and> (ann_class_id a = Some kid \<longrightarrow>
            (qual (announcements_select_policy d (Some c) a) \<longleftrightarrow> has_assignment d c kid))"
proof (intro conjI impI)
  show "qual (classes_select_policy d (Some c) k) \<longleftrightarrow> has_assignment d c (classes_id k)"
    using not_admin [OF assms]
    by (simp add: classes_select_policy_def users_view_assigned_classes_def admins_manage_classes_def
        qual_sql_or qual_sql_and authenticated_Some qual_exists_assignment)
next
  assume "se_class_id e = Some kid"
  then show "qual (syllabus_entries_select_policy d (Some c) e) \<longleftrightarrow> has_assignment d c kid"
    using not_admin [OF assms]
    by (auto simp: syllabus_entries_select_policy_def users_view_assigned_class_syllabus_def
        volunteers_manage_own_syllabus_def admins_manage_all_syllabus_def
        qual_sql_or qual_sql_and authenticated_Some qual_exists_assignment)
next
  assume "ann_class_id a = Some kid"
  then show "qual (announcements_select_policy d (Some c) a) \<longleftrightarrow> has_assignment d c kid"
    using not_admin [OF assms]
    by (auto simp: announcements_select_policy_def users_read_relevant_announcements_def
        admins_manage_all_announcements_def sql_is_null_def qual_def [of "Some False"]
        qual_sql_or qual_sql_and authenticated_Some qual_exists_assignment)
qed

lemmas policy_defs = classes_select_policy_def users_view_assigned_classes_def admins_manage_classes_def
  syllabus_entries_select_policy_def users_view_assigned_class_syllabus_def
  volunteers_manage_own_syllabus_def admins_manage_all_syllabus_def syllabus_entries_write_policy_def
  announcements_select_policy_def users_read_relevant_announcements_def
  admins_manage_all_announcements_def exists_assignment_def select_class_assignments_def
  class_assignments_select_policy_def users_see_own_assignments_def admins_manage_assignments_def
  get_current_user_role_def has_assignment_def sql_exists_def sql_is_null_def sql_eq_def qual_def
  auth_uid_def auth_role_def

theorem select_scoped_iff_assignment_witness:
  "get_current_user_role example_db (Some ''v1'') = Some ''volunteer''
   \<and> has_assignment example_db ''v1'' ''k1'' \<and> \<not> has_assignment example_db ''v1'' ''k2''
   \<and> qual (classes_select_policy example_db (Some ''v1'') (example_class ''k1'' ''6'' ''Maths''))
   \<and> \<not> qual (classes_select_policy example_db (Some ''v1'') (example_class ''k2'' ''7'' ''Science''))
   \<and> qual (syllabus_entries_select_policy example_db (Some ''v1'') (example_entry ''e1'' ''k1'' ''v1''))
   \<and> qual (announcements_select_policy example_db (Some ''v1'') (example_announcement ''n1'' (Some ''k1'') ''v1''))"
  using select_scoped_iff_assignment [of example_db "''v1''" "example_class ''k1'' ''6'' ''Maths''"
      "example_entry ''e1'' ''k1'' ''v1''" "''k1''" "example_announcement ''n1'' (Some ''k1'') ''v1''"]
    select_scoped_iff_assignment [of example_db "''v1''" "example_class ''k2'' ''7'' ''Science''"
      "example_entry ''e1'' ''k1'' ''v1''" "''k1''" "example_announcement ''n1'' (Some ''k1'') ''v1''"]
  by (simp add: ex_defs policy_defs)

text \<open>
  C6. An INSERT into \<open>syllabus_entries\<close> by a caller \<open>V\<close> whose role is not admin succeeds
  if and only if the new row names \<open>V\<close> as \<open>volunteer_id\<close> and \<open>V\<close> has an assignment to the
  row's class; otherwise row security rejects it. So the insert of an assigned volunteer
  in the volunteer's own name succeeds and the same insert in the name of another user
  is rejected.
\<close>

theorem syllabus_insert_iff:
  assumes "get_current_user_role d (Some v) \<noteq> Some ''admin''"
  shows "insert_syllabus_entries (Some v) returning r d
         = (if se_volunteer_id r = Some v \<and> (\<exists>k. se_class_id r = Some k \<and> has_assignment d v k)
            then Inr (d\<lparr>syllabus_entries := syllabus_entries d @ [r]\<rparr>)
            else Inl RlsViolation)"
  using not_admin [OF assms]
  by (auto simp: insert_syllabus_entries_def syllabus_entries_write_policy_def
      syllabus_entries_select_policy_def users_view_assigned_class_syllabus_def
      volunteers_manage_own_syllabus_def admins_manage_all_syllabus_def
      qual_sql_or qual_sql_and authenticated_Some qual_exists_assignment qual_sql_eq_uid)

theorem syllabus_insert_iff_witness:
  "get_current_user_role example_db (Some ''v1'') = Some ''volunteer''
   \<and> insert_syllabus_entries (Some ''v1'') False (example_entry ''e2'' ''k1'' ''v1'') example_db
       = Inr (example_db\<lparr>syllabus_entries := [example_entry ''e1'' ''k1'' ''v1'', example_entry ''e2'' ''k1'' ''v1'']\<rparr>)
   \<and> insert_syllabus_entries (Some ''v1'') False (example_entry ''e2'' ''k1'' ''w1'') example_db
       = Inl RlsViolation"
  using syllabus_insert_iff [of example_db "''v1''" False "example_entry ''e2'' ''k1'' ''v1''"]
    syllabus_insert_iff [of example_db "''v1''" False "example_entry ''e2'' ''k1'' ''w1''"]
  by (simp add: ex_defs get_current_user_role_def has_assignment_def sql_eq_def qual_def auth_uid_def)

section \<open>Promotion and insertion of users\<close>

lemma sql_or_Some: "sql_or (Some a) (Some b) = Some (a \<or> b)"
  by (cases a; cases b; simp)

lemma sql_in_Some: "sql_in (Some x) vs = Some (x \<in> set vs)"
proof -
  have "foldr (\<lambda>v acc. sql_or (sql_eq (Some x) (Some v)) acc) vs (Some False) = Some (x \<in> set vs)"
    by (induction vs) (auto simp: sql_eq_def sql_or_Some)
  then show ?thesis by (simp add: sql_in_def)
qed

lemma valid_user_roles_iff:
  "valid_user_roles u = (users_role u \<in> set [''admin'', ''volunteer'', ''viewer''])"
  unfolding valid_user_roles_def sql_in_Some by simp

lemma role_not_in_iff:
  "qual (sql_not (sql_in (Some r) [''admin'', ''volunteer'', ''viewer'']))
   = (r \<notin> set [''admin'', ''volunteer'', ''viewer''])"
  unfolding sql_in_Some by (simp add: sql_not_def qual_def)

lemma promote_user_valid:
  assumes "r \<in> set [''admin'', ''volunteer'', ''viewer'']"
  shows "promote_user c (Some t) (Some r) d
         = Inr (d\<lparr>users := map (\<lambda>u. if users_id u = t then u\<lparr>users_role := r\<rparr> else u) (users d)\<rparr>)"
proof -
  have "each_row (\<lambda>u. if qual (sql_eq (Some (users_id u)) (Some t))
                       then (case Some r of
                               None \<Rightarrow> Inl NotNullViolation
                             | Some r \<Rightarrow>
                                 if valid_user_roles (u\<lparr>users_role := r\<rparr>)
                                 then Inr (u\<lparr>users_role := r\<rparr>) else Inl CheckViolation)
                       else Inr u) (users d)
        = Inr (map (\<lambda>u. if users_id u = t then u\<lparr>users_role := r\<rparr> else u) (users d))"
    using assms by (intro each_row_map) (simp add: qual_sql_eq_Some valid_user_roles_iff)
  then show ?thesis
    using assms role_not_in_iff [of r] by (simp add: promote_user_def)
qed

lemma role_after_promotion:
  "t \<in> users_id ` set us \<Longrightarrow>
   get_current_user_role (d\<lparr>users := map (\<lambda>u. if users_id u = t then u\<lparr>users_role := r\<rparr> else u) us\<rparr>) (Some t)
   = Some r"
  by (induction us) (auto simp: get_current_user_role_def qual_sql_eq_Some auth_uid_def)

text \<open>
  What the validation of \<open>promote_user\<close> does reject: every text outside admin, volunteer,
  viewer raises "Invalid role: ..." before the UPDATE, whoever the caller and the target
  are; with a role of the enumeration the function returns a new state.
\<close>

lemma promote_user_rejects_text:
  "(r \<notin> set [''admin'', ''volunteer'', ''viewer''] \<longrightarrow>
      promote_user c target_user (Some r) d = Inl (RaiseException (''Invalid role: '' @ r))
      \<and> state_after d (promote_user c target_user (Some r) d) = d)
   \<and> (r \<in> set [''admin'', ''volunteer'', ''viewer''] \<longrightarrow>
      (\<exists>d'. promote_user c (Some t) (Some r) d = Inr d'))"
  using role_not_in_iff [of r] promote_user_valid [where r = r and c = c and t = t and d = d]
  by (simp add: promote_user_def state_after_def)

text \<open>
  C4 does not hold of the code when the submitted role is NULL, a value outside admin,
  volunteer, viewer that the function accepts: the validation raises no "Invalid role"
  exception and the UPDATE runs. For a target without a row (\<open>zz\<close>) the call returns
  normally; for a target with a row (\<open>p1\<close>) it is the NOT NULL column, not the
  validation, that stops the write. The claim asks for the "Invalid role" rejection.
\<close>

theorem promote_user_null_role:
  "promote_user (Some ''p1'') (Some ''zz'') None example_db = Inr example_db
   \<and> promote_user (Some ''p1'') (Some ''p1'') None example_db = Inl NotNullViolation
   \<and> promote_user (Some ''p1'') (Some ''p1'') (Some ''superadmin'') example_db
       = Inl (RaiseException ''Invalid role: superadmin'')"
  by (simp add: promote_user_def sql_in_def sql_not_def sql_eq_def qual_def ex_defs)

text \<open>
  C9. \<open>promote_user\<close> checks nothing about its caller: for every caller, with or without
  identity and of any role, every target and every role \<open>r\<close> of the enumeration, it sets
  the role of the target's row to \<open>r\<close>, and the role function then gives \<open>r\<close> for the
  target. A viewer who names itself as target becomes admin.
\<close>

theorem promote_user_any_caller:
  assumes "r \<in> set [''admin'', ''volunteer'', ''viewer'']"
  shows "promote_user c (Some t) (Some r) d
           = Inr (d\<lparr>users := map (\<lambda>u. if users_id u = t then u\<lparr>users_role := r\<rparr> else u) (users d)\<rparr>)
         \<and> (t \<in> users_id ` set (users d) \<longrightarrow>
              get_current_user_role (state_after d (promote_user c (Some t) (Some r) d)) (Some t) = Some r)"
  using promote_user_valid [OF assms, of c t d] role_after_promotion [where t = t and us = "users d" and d = d and r = r]
  by (simp add: state_after_def)

theorem promote_user_any_caller_witness:
  "get_current_user_role example_db (Some ''p1'') = Some ''viewer''
   \<and> get_current_user_role (state_after example_db
         (promote_user (Some ''p1'') (Some ''p1'') (Some ''admin'') example_db)) (Some ''p1'')
       = Some ''admin''
   \<and> get_current_user_role (state_after example_db
         (promote_user None (Some ''v1'') (Some ''viewer'') example_db)) (Some ''v1'')
       = Some ''viewer''"
  using promote_user_any_caller [where r = "''admin''" and c = "Some ''p1''" and t = "''p1''" and d = example_db]
    promote_user_any_caller [where r = "''viewer''" and c = None and t = "''v1''" and d = example_db]
  by (simp add: ex_defs get_current_user_role_def qual_def sql_eq_def auth_uid_def state_after_def)

text \<open>
  C10. The INSERT policy of \<open>users\<close> is true for every caller and every row: an INSERT of
  a row with a role of the enumeration and an id not yet in the table succeeds, whoever
  the caller is and whatever id and role the row has.
\<close>

theorem users_insert_unrestricted:
  "qual (system_inserts_users d c r)
   \<and> (users_role r \<in> set [''admin'', ''volunteer'', ''viewer''] \<and> users_id r \<notin> users_id ` set (users d) \<longrightarrow>
        insert_users c r d = Inr (d\<lparr>users := users d @ [r]\<rparr>))"
proof -
  have "filter (\<lambda>u. qual (sql_eq (Some (users_id u)) (Some (users_id r)))) (users d) = []"
    if "users_id r \<notin> users_id ` set (users d)"
  proof -
    from that have "\<forall>u\<in>set (users d). users_id u \<noteq> users_id r"
      by (metis imageI)
    then show ?thesis
      by (simp add: filter_empty_conv qual_sql_eq_Some)
  qed
  then show ?thesis
    by (simp add: system_inserts_users_def insert_users_def insert_users_row_def
        valid_user_roles_iff qual_def [of "Some True"])
qed

theorem users_insert_unrestricted_witness:
  "get_current_user_role example_db (Some ''p1'') = Some ''viewer''
   \<and> insert_users (Some ''p1'') (example_user ''z9'' ''z9@example.org'' ''admin'') example_db
       = Inr (example_db\<lparr>users := users example_db @ [example_user ''z9'' ''z9@example.org'' ''admin'']\<rparr>)
   \<and> insert_users None (example_user ''z9'' ''z9@example.org'' ''admin'') example_db
       = Inr (example_db\<lparr>users := users example_db @ [example_user ''z9'' ''z9@example.org'' ''admin'']\<rparr>)"
  using users_insert_unrestricted [where d = example_db and c = "Some ''p1''"
      and r = "example_user ''z9'' ''z9@example.org'' ''admin''"]
    users_insert_unrestricted [where d = example_db and c = None
      and r = "example_user ''z9'' ''z9@example.org'' ''admin''"]
  by (simp add: ex_defs get_current_user_role_def qual_def sql_eq_def auth_uid_def)

section \<open>Provisioning\<close>

lemma insert_users_row_DoNothing:
  assumes "valid_user_roles r"
  shows "insert_users_row DoNothing r d
         = (if users_id r \<in> users_id ` set (users d) then Inr d else Inr (d\<lparr>users := users d @ [r]\<rparr>))"
proof -
  have "(filter (\<lambda>u. qual (sql_eq (Some (users_id u)) (Some (users_id r)))) (users d) \<noteq> [])
        = (users_id r \<in> users_id ` set (users d))"
    unfolding filter_empty_conv qual_sql_eq_Some by (simp add: image_iff) metis
  with assms show ?thesis
    unfolding insert_users_row_def by simp
qed

lemma handle_new_user_eq:
  "handle_new_user defaults new d
   = (if au_id new \<in> users_id ` set (users d) then Inr d
      else Inr (d\<lparr>users := users d @
                  [defaults\<lparr>users_id := au_id new, users_email := au_email new,
                            users_name := map_of (au_raw_user_meta_data new) ''name'',
                            users_role := (if au_email new = ''sunny@example.com'' then ''admin'' else ''viewer'')\<rparr>]\<rparr>))"
  unfolding handle_new_user_def
  by (subst insert_users_row_DoNothing) (simp_all add: valid_user_roles_iff qual_sql_eq_Some)

text \<open>
  C5, as amended. The trigger never fails. After it a row of \<open>users\<close> has the id of the
  new identity. When no row had that id, the trigger appends one whose role is \<open>viewer\<close>,
  except that the email \<open>sunny@example.com\<close> gives \<open>admin\<close>. When a row had that id the
  table is unchanged, so a second invocation for the same identity changes nothing and
  raises nothing.
\<close>

theorem handle_new_user_provisions:
  "\<exists>d'. handle_new_user defaults new d = Inr d'
      \<and> (\<exists>u\<in>set (users d'). users_id u = au_id new)
      \<and> (au_id new \<notin> users_id ` set (users d) \<longrightarrow>
           d' = d\<lparr>users := users d @
                  [defaults\<lparr>users_id := au_id new, users_email := au_email new,
                            users_name := map_of (au_raw_user_meta_data new) ''name'',
                            users_role := (if au_email new = ''sunny@example.com'' then ''admin'' else ''viewer'')\<rparr>]\<rparr>)
      \<and> (au_id new \<in> users_id ` set (users d) \<longrightarrow> d' = d)
      \<and> (\<forall>defaults2 new2. au_id new2 = au_id new \<longrightarrow> handle_new_user defaults2 new2 d' = Inr d')"
proof (cases "au_id new \<in> users_id ` set (users d)")
  case True
  then show ?thesis
    by (auto simp: handle_new_user_eq)
next
  case False
  then show ?thesis
    by (simp add: handle_new_user_eq)
qed

theorem handle_new_user_provisions_witness:
  "handle_new_user (example_user [] [] []) \<lparr>au_id = ''n7'', au_email = ''n7@example.org'', au_raw_user_meta_data = [(''name'', ''Nina'')]\<rparr> example_db
     = Inr (example_db\<lparr>users := users example_db @ [(example_user ''n7'' ''n7@example.org'' ''viewer'')\<lparr>users_name := Some ''Nina''\<rparr>]\<rparr>)
   \<and> handle_new_user (example_user [] [] []) \<lparr>au_id = ''p1'', au_email = ''p1@example.org'', au_raw_user_meta_data = []\<rparr> example_db
     = Inr example_db"
  using handle_new_user_provisions [where defaults = "example_user [] [] []" and d = example_db
      and new = "\<lparr>au_id = ''n7'', au_email = ''n7@example.org'', au_raw_user_meta_data = [(''name'', ''Nina'')]\<rparr>"]
    handle_new_user_provisions [where defaults = "example_user [] [] []" and d = example_db
      and new = "\<lparr>au_id = ''p1'', au_email = ''p1@example.org'', au_raw_user_meta_data = []\<rparr>"]
  by (auto simp: ex_defs)

text \<open>
  C5 as stated fails: the identity with email \<open>sunny@example.com\<close> gets a row whose role
  is \<open>admin\<close>, not \<open>viewer\<close>.
\<close>

theorem handle_new_user_counterexample:
  "handle_new_user (example_user [] [] []) \<lparr>au_id = ''s1'', au_email = ''sunny@example.com'', au_raw_user_meta_data = []\<rparr> example_db
     = Inr (example_db\<lparr>users := users example_db @ [example_user ''s1'' ''sunny@example.com'' ''admin'']\<rparr>)
   \<and> users_role (example_user ''s1'' ''sunny@example.com'' ''admin'') \<noteq> ''viewer''"
  by (simp add: handle_new_user_def insert_users_row_def valid_user_roles_iff qual_sql_eq_Some ex_defs)

section \<open>Updates of syllabus entries\<close>

lemma owner_assigned_write:
  "owner_assigned d v e \<Longrightarrow> qual (syllabus_entries_write_policy d (Some v) e)"
  by (auto simp: owner_assigned_def syllabus_entries_write_policy_def volunteers_manage_own_syllabus_def
      qual_sql_or qual_sql_and authenticated_Some qual_exists_assignment qual_sql_eq_uid
      split: option.splits)

lemma admin_write:
  "get_current_user_role d c = Some ''admin'' \<Longrightarrow> qual (syllabus_entries_write_policy d c e)"
  by (simp add: syllabus_entries_write_policy_def admins_manage_all_syllabus_def qual_sql_or qual_sql_eq)

lemma write_select:
  "qual (syllabus_entries_write_policy d c e) \<Longrightarrow> qual (syllabus_entries_select_policy d c e)"
  by (auto simp: syllabus_entries_write_policy_def syllabus_entries_select_policy_def qual_sql_or)

lemma syllabus_update_permitted:
  assumes "get_current_user_role d (Some v) = Some ''admin''
           \<or> (\<forall>e\<in>set (syllabus_entries d). wher e \<longrightarrow> owner_assigned d v e \<and> owner_assigned d v (setf e))"
  shows "update_syllabus_entries (Some v) setf wher d
         = Inr (d\<lparr>syllabus_entries := map (\<lambda>e. if wher e then setf e else e) (syllabus_entries d)\<rparr>)"
proof -
  have ok: "qual (syllabus_entries_write_policy d (Some v) e) \<and> qual (syllabus_entries_write_policy d (Some v) (setf e))"
    if "e \<in> set (syllabus_entries d)" and "wher e" for e
    using assms that by (auto intro: owner_assigned_write admin_write)
  have "each_row (\<lambda>e. if syllabus_entries_update_target d (Some v) wher e
                       then syllabus_entries_new_row d (Some v) (setf e) else Inr e) (syllabus_entries d)
        = Inr (map (\<lambda>e. if wher e then setf e else e) (syllabus_entries d))"
  proof (rule each_row_map)
    fix e
    assume "e \<in> set (syllabus_entries d)"
    then show "(if syllabus_entries_update_target d (Some v) wher e
                then syllabus_entries_new_row d (Some v) (setf e) else Inr e)
               = Inr (if wher e then setf e else e)"
      using ok [of e]
      by (auto simp: syllabus_entries_update_target_def syllabus_entries_new_row_def write_select)
  qed
  then show ?thesis by (simp add: update_syllabus_entries_def)
qed

lemma each_row_all2:
  "each_row f rs = Inr rs' \<Longrightarrow> list_all2 (\<lambda>r r'. f r = Inr r') rs rs'"
proof (induction rs arbitrary: rs')
  case Nil
  then show ?case by simp
next
  case (Cons r rs)
  then show ?case
    by (auto split: sum.splits)
qed

lemma write_policy_owner:
  assumes "get_current_user_role d c \<noteq> Some ''admin''"
    and "qual (syllabus_entries_write_policy d c e)"
  shows "\<exists>v. c = Some v \<and> owner_assigned d v e"
proof (cases c)
  case None
  with assms show ?thesis
    by (simp add: syllabus_entries_write_policy_def volunteers_manage_own_syllabus_def
        admins_manage_all_syllabus_def qual_sql_or qual_sql_and qual_sql_eq auth_role_def)
next
  case (Some v)
  with assms not_admin [OF assms(1)] have "owner_assigned d v e"
    by (auto simp: syllabus_entries_write_policy_def volunteers_manage_own_syllabus_def
        admins_manage_all_syllabus_def qual_sql_or qual_sql_and qual_exists_assignment
        qual_sql_eq_uid owner_assigned_def)
  with Some show ?thesis by simp
qed

lemma syllabus_update_only_owner:
  assumes na: "get_current_user_role d c \<noteq> Some ''admin''"
  shows "list_all2 (\<lambda>e e'. e' = e \<or> (\<exists>v. c = Some v \<and> owner_assigned d v e \<and> owner_assigned d v e'))
           (syllabus_entries d) (syllabus_entries (state_after d (update_syllabus_entries c setf wher d)))"
proof (cases "update_syllabus_entries c setf wher d")
  case (Inl err)
  then show ?thesis
    by (simp add: state_after_def list_all2_same)
next
  case (Inr d')
  then obtain rows where
    er: "each_row (\<lambda>e. if syllabus_entries_update_target d c wher e
                        then syllabus_entries_new_row d c (setf e) else Inr e) (syllabus_entries d) = Inr rows"
    and d': "d' = d\<lparr>syllabus_entries := rows\<rparr>"
    by (auto simp: update_syllabus_entries_def split: sum.splits)
  have "list_all2 (\<lambda>e e'. e' = e \<or> (\<exists>v. c = Some v \<and> owner_assigned d v e \<and> owner_assigned d v e'))
           (syllabus_entries d) rows"
  proof (rule list_all2_mono [OF each_row_all2 [OF er]])
    fix e e'
    assume step: "(if syllabus_entries_update_target d c wher e
                   then syllabus_entries_new_row d c (setf e) else Inr e) = Inr e'"
    show "e' = e \<or> (\<exists>v. c = Some v \<and> owner_assigned d v e \<and> owner_assigned d v e')"
    proof (cases "syllabus_entries_update_target d c wher e")
      case False
      with step show ?thesis by simp
    next
      case True
      with step have "qual (syllabus_entries_write_policy d c e)"
        and "qual (syllabus_entries_write_policy d c e')"
        by (auto simp: syllabus_entries_update_target_def syllabus_entries_new_row_def split: if_splits)
      then show ?thesis
        using write_policy_owner [OF na] by blast
    qed
  qed
  with Inr d' show ?thesis by (simp add: state_after_def)
qed

text \<open>
  C7, as amended. The policies of \<open>syllabus_entries\<close> test \<open>volunteer_id\<close> and \<open>class_id\<close>
  and no other column. An UPDATE by a volunteer on entries of the volunteer's own, in
  classes the volunteer is assigned to, succeeds with any SET clause that leaves the
  rows the volunteer's own in an assigned class: it may change the content columns and
  the approval flag alike; an UPDATE by an admin succeeds with any SET clause. Nobody
  else changes an entry: after any UPDATE by a caller who is not admin, with or without
  identity, every row is as it was (its approval flag with it), unless the caller is the
  row's volunteer, assigned to its class, before and after.
\<close>

theorem syllabus_update_owner_or_admin:
  "((get_current_user_role d (Some v) = Some ''admin''
       \<or> (\<forall>e\<in>set (syllabus_entries d). wher e \<longrightarrow> owner_assigned d v e \<and> owner_assigned d v (setf e)))
      \<longrightarrow> update_syllabus_entries (Some v) setf wher d
          = Inr (d\<lparr>syllabus_entries := map (\<lambda>e. if wher e then setf e else e) (syllabus_entries d)\<rparr>))
   \<and> (get_current_user_role d c \<noteq> Some ''admin''
      \<longrightarrow> list_all2 (\<lambda>e e2. e2 = e \<or> (\<exists>u. c = Some u \<and> owner_assigned d u e \<and> owner_assigned d u e2))
            (syllabus_entries d)
            (syllabus_entries (state_after d (update_syllabus_entries c setg whr d))))"
  using syllabus_update_permitted [of d v wher setf] syllabus_update_only_owner [of d c setg whr]
  by blast

theorem syllabus_update_owner_or_admin_witness:
  "owner_assigned example_db ''v1'' (example_entry ''e1'' ''k1'' ''v1'')
   \<and> owner_assigned example_db ''v1'' (set_approved (Some True) (example_entry ''e1'' ''k1'' ''v1''))
   \<and> update_syllabus_entries (Some ''v1'') (set_approved (Some True)) (se_id_eq ''e1'') example_db
       = Inr (example_db\<lparr>syllabus_entries := [set_approved (Some True) (example_entry ''e1'' ''k1'' ''v1'')]\<rparr>)
   \<and> get_current_user_role example_db (Some ''a1'') = Some ''admin''
   \<and> update_syllabus_entries (Some ''a1'') (set_approved (Some True)) (se_id_eq ''e1'') example_db
       = Inr (example_db\<lparr>syllabus_entries := [set_approved (Some True) (example_entry ''e1'' ''k1'' ''v1'')]\<rparr>)
   \<and> get_current_user_role example_db (Some ''w1'') = Some ''volunteer''
   \<and> \<not> owner_assigned example_db ''w1'' (example_entry ''e1'' ''k1'' ''v1'')
   \<and> syllabus_entries (state_after example_db
         (update_syllabus_entries (Some ''w1'') (set_approved (Some True)) (se_id_eq ''e1'') example_db))
       = [example_entry ''e1'' ''k1'' ''v1'']
   \<and> syllabus_entries (state_after example_db
         (update_syllabus_entries None (set_approved (Some True)) (se_id_eq ''e1'') example_db))
       = [example_entry ''e1'' ''k1'' ''v1'']"
proof -
  have w: "update_syllabus_entries (Some ''w1'') (set_approved (Some True)) (se_id_eq ''e1'') example_db
           = Inr example_db"
    by (simp add: ex_defs policy_defs update_syllabus_entries_def syllabus_entries_update_target_def
        syllabus_entries_new_row_def set_approved_def se_id_eq_def)
  have n: "update_syllabus_entries None (set_approved (Some True)) (se_id_eq ''e1'') example_db
           = Inr example_db"
    by (simp add: ex_defs policy_defs update_syllabus_entries_def syllabus_entries_update_target_def
        syllabus_entries_new_row_def set_approved_def se_id_eq_def)
  have e: "syllabus_entries example_db = [example_entry ''e1'' ''k1'' ''v1'']"
    by (simp add: ex_defs)
  from syllabus_update_owner_or_admin [where d = example_db and v = "''v1''" and wher = "se_id_eq ''e1''"
      and setf = "set_approved (Some True)" and c = "Some ''w1''" and setg = "set_approved (Some True)"
      and whr = "se_id_eq ''e1''"]
    syllabus_update_owner_or_admin [where d = example_db and v = "''a1''" and wher = "se_id_eq ''e1''"
      and setf = "set_approved (Some True)" and c = None and setg = "set_approved (Some True)"
      and whr = "se_id_eq ''e1''"]
  show ?thesis
    unfolding w n state_after_def
    by (simp add: e) (simp add: ex_defs owner_assigned_def has_assignment_def set_approved_def se_id_eq_def
      get_current_user_role_def qual_def sql_eq_def auth_uid_def)
qed

text \<open>
  C7 as stated fails: volunteer \<open>v1\<close>, not an admin, sets the approval flag of the
  volunteer's own entry \<open>e1\<close> from false to true, and the statement succeeds.
\<close>

theorem syllabus_approval_counterexample:
  "get_current_user_role example_db (Some ''v1'') = Some ''volunteer''
   \<and> se_volunteer_id (example_entry ''e1'' ''k1'' ''v1'') = Some ''v1''
   \<and> update_syllabus_entries (Some ''v1'') (set_approved (Some True)) (se_id_eq ''e1'') example_db
       = Inr (example_db\<lparr>syllabus_entries := [set_approved (Some True) (example_entry ''e1'' ''k1'' ''v1'')]\<rparr>)
   \<and> se_approved (set_approved (Some True) (example_entry ''e1'' ''k1'' ''v1''))
       \<noteq> se_approved (example_entry ''e1'' ''k1'' ''v1'')"
  by (simp add: ex_defs policy_defs update_syllabus_entries_def syllabus_entries_update_target_def
      syllabus_entries_new_row_def set_approved_def se_id_eq_def)

section \<open>Views and the policies of their tables\<close>

lemma pending_volunteers_view_viewer:
  "r \<in> set (pending_volunteers_view si d c) \<Longrightarrow>
   \<exists>u\<in>set (users d). users_role u = ''viewer'' \<and> r = pending_volunteers_columns u"
  by (auto simp: pending_volunteers_view_def base_rows_def select_users_def qual_sql_eq_Some
      split: if_splits)

text \<open>
  C3. For every caller, a row of \<open>pending_volunteers\<close> is the projection of a row of
  \<open>users\<close> that passes the SELECT policy of \<open>users\<close> for that caller and has the role
  \<open>viewer\<close>; a row of \<open>volunteer_dashboard\<close> is the join of a syllabus entry, a user and
  a class that each pass the SELECT policies of their table for that caller. With or
  without \<open>security_invoker\<close>, for every caller, a row of \<open>pending_volunteers\<close> comes from
  a user whose role is \<open>viewer\<close>.
\<close>

theorem views_inherit_caller_policies:
  "(\<forall>r\<in>set (pending_volunteers d c).
      \<exists>u\<in>set (users d). qual (users_read_own_profile_or_admins_read_all d c u)
         \<and> users_role u = ''viewer'' \<and> r = pending_volunteers_columns u)
   \<and> (\<forall>r\<in>set (volunteer_dashboard d c).
      \<exists>se\<in>set (syllabus_entries d). \<exists>u\<in>set (users d). \<exists>k\<in>set (classes d).
         qual (syllabus_entries_select_policy d c se)
         \<and> qual (users_read_own_profile_or_admins_read_all d c u)
         \<and> qual (classes_select_policy d c k)
         \<and> r = volunteer_dashboard_columns se u k)
   \<and> (\<forall>r\<in>set (pending_volunteers_view security_invoker d c).
      \<exists>u\<in>set (users d). users_role u = ''viewer'' \<and> r = pending_volunteers_columns u)"
proof (intro conjI ballI)
  fix r
  assume "r \<in> set (pending_volunteers d c)"
  then show "\<exists>u\<in>set (users d). qual (users_read_own_profile_or_admins_read_all d c u)
         \<and> users_role u = ''viewer'' \<and> r = pending_volunteers_columns u"
    by (auto simp: pending_volunteers_def pending_volunteers_view_def base_rows_def select_users_def
        qual_sql_eq_Some)
next
  fix r
  assume "r \<in> set (volunteer_dashboard d c)"
  then obtain se u k where "se \<in> set (select_syllabus_entries d c)" "u \<in> set (select_users d c)"
    "k \<in> set (select_classes d c)" "r = volunteer_dashboard_columns se u k"
    by (auto simp: volunteer_dashboard_def volunteer_dashboard_view_def base_rows_def split: if_splits)
  then show "\<exists>se\<in>set (syllabus_entries d). \<exists>u\<in>set (users d). \<exists>k\<in>set (classes d).
         qual (syllabus_entries_select_policy d c se)
         \<and> qual (users_read_own_profile_or_admins_read_all d c u)
         \<and> qual (classes_select_policy d c k)
         \<and> r = volunteer_dashboard_columns se u k"
    by (auto simp: select_syllabus_entries_def select_users_def select_classes_def)
next
  fix r
  assume "r \<in> set (pending_volunteers_view security_invoker d c)"
  then show "\<exists>u\<in>set (users d). users_role u = ''viewer'' \<and> r = pending_volunteers_columns u"
    by (rule pending_volunteers_view_viewer)
qed

lemmas view_defs = pending_volunteers_def pending_volunteers_view_def volunteer_dashboard_def
  volunteer_dashboard_view_def base_rows_def select_users_def select_classes_def
  select_syllabus_entries_def users_read_own_profile_or_admins_read_all_def sql_in_def

theorem views_inherit_caller_policies_witness:
  "pending_volunteers example_db (Some ''a1'')
     = [pending_volunteers_columns (example_user ''p1'' ''p1@example.org'' ''viewer'')]
   \<and> (\<exists>u\<in>set (users example_db).
         qual (users_read_own_profile_or_admins_read_all example_db (Some ''a1'') u)
         \<and> users_role u = ''viewer''
         \<and> pending_volunteers_columns (example_user ''p1'' ''p1@example.org'' ''viewer'')
             = pending_volunteers_columns u)
   \<and> volunteer_dashboard example_db (Some ''v1'')
     = [volunteer_dashboard_columns (example_entry ''e1'' ''k1'' ''v1'')
          (example_user ''v1'' ''v1@example.org'' ''volunteer'') (example_class ''k1'' ''6'' ''Maths'')]
   \<and> (\<exists>se\<in>set (syllabus_entries example_db). \<exists>u\<in>set (users example_db). \<exists>k\<in>set (classes example_db).
         qual (syllabus_entries_select_policy example_db (Some ''v1'') se)
         \<and> qual (users_read_own_profile_or_admins_read_all example_db (Some ''v1'') u)
         \<and> qual (classes_select_policy example_db (Some ''v1'') k)
         \<and> volunteer_dashboard_columns (example_entry ''e1'' ''k1'' ''v1'')
              (example_user ''v1'' ''v1@example.org'' ''volunteer'') (example_class ''k1'' ''6'' ''Maths'')
             = volunteer_dashboard_columns se u k)
   \<and> volunteer_dashboard example_db (Some ''p1'') = []"
proof -
  have pv: "pending_volunteers example_db (Some ''a1'')
     = [pending_volunteers_columns (example_user ''p1'' ''p1@example.org'' ''viewer'')]"
    by (simp add: ex_defs view_defs policy_defs)
  have vd: "volunteer_dashboard example_db (Some ''v1'')
     = [volunteer_dashboard_columns (example_entry ''e1'' ''k1'' ''v1'')
          (example_user ''v1'' ''v1@example.org'' ''volunteer'') (example_class ''k1'' ''6'' ''Maths'')]"
    by (simp add: ex_defs view_defs policy_defs)
  have vp: "volunteer_dashboard example_db (Some ''p1'') = []"
    by (simp add: ex_defs view_defs policy_defs)
  show ?thesis
    using views_inherit_caller_policies [where d = example_db and c = "Some ''a1''" and security_invoker = True]
      views_inherit_caller_policies [where d = example_db and c = "Some ''v1''" and security_invoker = True]
    unfolding pv vd vp by simp
qed

section \<open>Assignment is idempotent\<close>

lemma admin_passes:
  "get_current_user_role d c = Some ''admin'' \<Longrightarrow> class_assignments_passes d c ca"
  by (simp add: class_assignments_passes_def admins_manage_assignments_def
      class_assignments_select_policy_def qual_sql_or qual_sql_eq)

lemma passes_admin:
  "class_assignments_passes d c ca \<Longrightarrow> get_current_user_role d c = Some ''admin''"
  by (auto simp: class_assignments_passes_def admins_manage_assignments_def qual_sql_eq)

lemma admin_select_classes:
  "get_current_user_role d c = Some ''admin'' \<Longrightarrow> select_classes d c = classes d"
  by (simp add: select_classes_def classes_select_policy_def admins_manage_classes_def
      qual_sql_or qual_sql_eq)

lemma conflict_iff:
  "ca_user_id r = Some u \<Longrightarrow> ca_class_id r = Some k \<Longrightarrow>
   class_assignments_conflict r ca = (ca_user_id ca = Some u \<and> ca_class_id ca = Some k)"
  by (auto simp: class_assignments_conflict_def qual_sql_and qual_sql_eq)

lemma upsert_Inr_admin:
  "upsert_class_assignments c r d = Inr d' \<Longrightarrow> get_current_user_role d c = Some ''admin''"
  by (auto simp: upsert_class_assignments_def split: if_splits dest: passes_admin)

lemma upsert_admin:
  assumes adm: "get_current_user_role d c = Some ''admin''"
    and u: "ca_user_id r = Some u" and k: "ca_class_id r = Some k"
  shows "upsert_class_assignments c r d
         = Inr (if filter (\<lambda>ca. ca_user_id ca = Some u \<and> ca_class_id ca = Some k) (class_assignments d) = []
                then d\<lparr>class_assignments := class_assignments d @ [r]\<rparr> else d)"
proof -
  have cf: "class_assignments_conflict r = (\<lambda>ca. ca_user_id ca = Some u \<and> ca_class_id ca = Some k)"
    using conflict_iff [OF u k] by (rule ext)
  have "each_row (\<lambda>ca. if class_assignments_conflict r ca
                          then (if \<not> class_assignments_passes d c ca then Inl RlsViolation
                                else if \<not> class_assignments_passes d c
                                            (ca\<lparr>ca_user_id := ca_user_id r, ca_class_id := ca_class_id r\<rparr>)
                                then Inl RlsViolation
                                else Inr (ca\<lparr>ca_user_id := ca_user_id r, ca_class_id := ca_class_id r\<rparr>))
                          else Inr ca) (class_assignments d)
        = Inr (map (\<lambda>ca. ca) (class_assignments d))"
    by (rule each_row_map) (simp add: admin_passes [OF adm] cf u k)
  then show ?thesis
    using admin_passes [OF adm] by (simp add: upsert_class_assignments_def cf)
qed

lemma find_or_create_frame:
  "find_or_create_class c g s kd d = Inr (cid, dm) \<Longrightarrow>
   users dm = users d \<and> class_assignments dm = class_assignments d"
  by (auto simp: find_or_create_class_def insert_classes_def split: sum.splits option.splits if_splits)

lemma maybeSingle_cases:
  "maybeSingle rows = Inr None \<longleftrightarrow> rows = []"
  "maybeSingle rows = Inr (Some r) \<longleftrightarrow> rows = [r]"
  by (auto simp: maybeSingle_def split: list.splits)

lemma find_or_create_refind:
  assumes adm: "get_current_user_role d c = Some ''admin''"
    and fc: "find_or_create_class c g s kd d = Inr (cid, dm)"
  shows "\<exists>k. filter (\<lambda>k. classes_grade k = g \<and> classes_subject k = s) (classes dm) = [k]
             \<and> classes_id k = cid"
proof (cases "maybeSingle (filter (\<lambda>k. classes_grade k = g \<and> classes_subject k = s) (select_classes d c))")
  case (Inl e)
  with fc show ?thesis by (simp add: find_or_create_class_def)
next
  case (Inr found)
  show ?thesis
  proof (cases found)
    case (Some k)
    with Inr fc have "cid = classes_id k" "dm = d"
      by (simp_all add: find_or_create_class_def)
    moreover from Inr Some have "filter (\<lambda>k. classes_grade k = g \<and> classes_subject k = s) (classes d) = [k]"
      by (simp add: maybeSingle_cases admin_select_classes [OF adm])
    ultimately show ?thesis by simp
  next
    case None
    with Inr have empty: "filter (\<lambda>k. classes_grade k = g \<and> classes_subject k = s) (classes d) = []"
      by (simp add: maybeSingle_cases admin_select_classes [OF adm])
    from None Inr fc have "cid = classes_id kd"
      and "dm = d\<lparr>classes := classes d @ [kd\<lparr>classes_grade := g, classes_subject := s,
                                       classes_class_label := Some (g @ ''-'' @ s)\<rparr>]\<rparr>"
      by (auto simp: find_or_create_class_def insert_classes_def split: if_splits)
    with empty show ?thesis by simp
  qed
qed

lemma find_existing:
  assumes adm: "get_current_user_role d c = Some ''admin''"
    and one: "filter (\<lambda>k. classes_grade k = g \<and> classes_subject k = s) (classes d) = [k]"
  shows "find_or_create_class c g s kd d = Inr (classes_id k, d)"
  using one by (simp add: find_or_create_class_def admin_select_classes [OF adm] maybeSingle_def)

lemma unique_pair_le1:
  assumes "unique_user_class d"
  shows "length (filter (\<lambda>ca. ca_user_id ca = Some u \<and> ca_class_id ca = Some k) (class_assignments d)) \<le> Suc 0"
proof -
  let ?Q = "\<lambda>ca. ca_user_id ca \<noteq> None \<and> ca_class_id ca \<noteq> None"
  let ?f = "\<lambda>ca. (ca_user_id ca, ca_class_id ca)"
  have "filter (\<lambda>ca. ca_user_id ca = Some u \<and> ca_class_id ca = Some k) (class_assignments d)
        = filter (\<lambda>ca. ?f ca = (Some u, Some k)) (filter ?Q (class_assignments d))"
    by (auto simp: filter_filter intro: filter_cong)
  moreover have "length (filter (\<lambda>ca. ?f ca = (Some u, Some k)) (filter ?Q (class_assignments d))) \<le> Suc 0"
    using assms unfolding unique_user_class_def by (rule filter_distinct_le1)
  ultimately show ?thesis by simp
qed

text \<open>
  C8. When \<open>handleClassAssignment\<close> has succeeded for a user, a grade and a subject, on a
  table that respects its unique index, a second call with the same user, grade and
  subject (whatever ids the database would generate) succeeds as well and leaves the
  state exactly as the first call left it; the class of that grade and subject then has
  exactly one assignment row for the user.
\<close>

theorem assignment_idempotent:
  assumes first: "handleClassAssignment c userId (Some (grade, subject)) kd ad d = (Success, d1)"
    and uniq: "unique_user_class d"
  shows "handleClassAssignment c userId (Some (grade, subject)) kd2 ad2 d1 = (Success, d1)
       \<and> (\<exists>k\<in>set (classes d1). classes_grade k = grade \<and> classes_subject k = subject
            \<and> length (filter (\<lambda>ca. ca_user_id ca = Some userId \<and> ca_class_id ca = Some (classes_id k))
                        (class_assignments d1)) = 1)"
proof -
  from first have ne: "grade \<noteq> []" "subject \<noteq> []"
    by (auto simp: handleClassAssignment_def split: if_splits)
  from first ne obtain cid dm where
    fc: "find_or_create_class c grade subject kd d = Inr (cid, dm)"
    and up: "upsert_class_assignments c (ad\<lparr>ca_user_id := Some userId, ca_class_id := Some cid\<rparr>) dm = Inr d1"
    by (auto simp: handleClassAssignment_def split: sum.splits)
  from fc have frame: "users dm = users d" "class_assignments dm = class_assignments d"
    using find_or_create_frame by blast+
  from up have adm_m: "get_current_user_role dm c = Some ''admin''"
    by (rule upsert_Inr_admin)
  with frame have adm: "get_current_user_role d c = Some ''admin''"
    by (simp add: get_current_user_role_def)
  let ?mine = "\<lambda>ca. ca_user_id ca = Some userId \<and> ca_class_id ca = Some cid"
  have d1: "d1 = (if filter ?mine (class_assignments dm) = []
                  then dm\<lparr>class_assignments := class_assignments dm @ [ad\<lparr>ca_user_id := Some userId, ca_class_id := Some cid\<rparr>]\<rparr>
                  else dm)"
    using up upsert_admin [OF adm_m, where r = "ad\<lparr>ca_user_id := Some userId, ca_class_id := Some cid\<rparr>"
        and u = userId and k = cid]
    by simp
  then have users1: "users d1 = users dm" and classes1: "classes d1 = classes dm"
    by (simp_all split: if_splits)
  have adm1: "get_current_user_role d1 c = Some ''admin''"
    using adm_m users1 by (simp add: get_current_user_role_def)
  have count: "length (filter ?mine (class_assignments d1)) = 1"
  proof (cases "filter ?mine (class_assignments dm) = []")
    case True
    then show ?thesis using d1 by simp
  next
    case False
    have "length (filter ?mine (class_assignments dm)) \<le> Suc 0"
      using unique_pair_le1 [OF uniq] frame by simp
    with False have "length (filter ?mine (class_assignments dm)) = 1"
      by (cases "filter ?mine (class_assignments dm)") simp_all
    then show ?thesis using False d1 by simp
  qed
  from find_or_create_refind [OF adm fc] obtain k where
    k: "filter (\<lambda>k. classes_grade k = grade \<and> classes_subject k = subject) (classes dm) = [k]"
    and kid: "classes_id k = cid"
    by blast
  have again_fc: "find_or_create_class c grade subject kd2 d1 = Inr (cid, d1)"
    using find_existing [OF adm1, where g = grade and s = subject and k = k and kd = kd2] k kid classes1
    by simp
  have nonempty: "filter ?mine (class_assignments d1) \<noteq> []"
    using count by auto
  have again_up: "upsert_class_assignments c (ad2\<lparr>ca_user_id := Some userId, ca_class_id := Some cid\<rparr>) d1 = Inr d1"
    using upsert_admin [OF adm1, where r = "ad2\<lparr>ca_user_id := Some userId, ca_class_id := Some cid\<rparr>"
        and u = userId and k = cid] nonempty
    by simp
  have again: "handleClassAssignment c userId (Some (grade, subject)) kd2 ad2 d1 = (Success, d1)"
    using ne again_fc again_up by (simp add: handleClassAssignment_def)
  have "k \<in> set (filter (\<lambda>k. classes_grade k = grade \<and> classes_subject k = subject) (classes dm))"
    using k by simp
  then have kin: "k \<in> set (classes d1)" "classes_grade k = grade" "classes_subject k = subject"
    using classes1 by simp_all
  show ?thesis
    using again kin count kid by auto
qed

lemmas assign_defs = handleClassAssignment_def find_or_create_class_def maybeSingle_def
  select_classes_def insert_classes_def upsert_class_assignments_def class_assignments_passes_def
  class_assignments_conflict_def unique_user_class_def

theorem assignment_idempotent_witness:
  "unique_user_class example_db
   \<and> handleClassAssignment (Some ''a1'') ''p1'' (Some (''6'', ''Maths'')) (example_class ''k9'' [] [])
        \<lparr>ca_id = ''x9'', ca_user_id = None, ca_class_id = None\<rparr> example_db
       = (Success, example_db\<lparr>class_assignments := class_assignments example_db
                                  @ [\<lparr>ca_id = ''x9'', ca_user_id = Some ''p1'', ca_class_id = Some ''k1''\<rparr>]\<rparr>)
   \<and> handleClassAssignment (Some ''a1'') ''p1'' (Some (''6'', ''Maths'')) (example_class ''k8'' [] [])
        \<lparr>ca_id = ''x8'', ca_user_id = None, ca_class_id = None\<rparr>
        (example_db\<lparr>class_assignments := class_assignments example_db
                                  @ [\<lparr>ca_id = ''x9'', ca_user_id = Some ''p1'', ca_class_id = Some ''k1''\<rparr>]\<rparr>)
       = (Success, example_db\<lparr>class_assignments := class_assignments example_db
                                  @ [\<lparr>ca_id = ''x9'', ca_user_id = Some ''p1'', ca_class_id = Some ''k1''\<rparr>]\<rparr>)"
proof -
  have u: "unique_user_class example_db"
    by (simp add: ex_defs unique_user_class_def)
  have f: "handleClassAssignment (Some ''a1'') ''p1'' (Some (''6'', ''Maths'')) (example_class ''k9'' [] [])
        \<lparr>ca_id = ''x9'', ca_user_id = None, ca_class_id = None\<rparr> example_db
       = (Success, example_db\<lparr>class_assignments := class_assignments example_db
                                  @ [\<lparr>ca_id = ''x9'', ca_user_id = Some ''p1'', ca_class_id = Some ''k1''\<rparr>]\<rparr>)"
    by (simp add: ex_defs assign_defs policy_defs)
  from assignment_idempotent [OF f u, of "example_class ''k8'' [] []"
      "\<lparr>ca_id = ''x8'', ca_user_id = None, ca_class_id = None\<rparr>"]
  show ?thesis using u f by simp
qed

end
